theory Spec2Isabelle
  imports Complex_Main
begin

section \<open>Errors\<close>

text \<open>
  Every exception the TypeScript code throws is a value here.  \<open>GraphQLError\<close> carries its
  message and its \<open>extensions\<close> object; \<open>AuthenticationError\<close> is the class imported from
  apollo-server-express by the auth middleware; \<open>TypeError\<close> is what the JavaScript
  runtime throws when a property of \<open>undefined\<close> is read; \<open>JsonWebTokenError\<close> is
  what \<open>jwt.verify\<close> throws; \<open>StoreError\<close> and
  \<open>RedisError\<close> stand for a rejected promise of the database or of the Redis client.
\<close>

datatype extval = ExtStr string | ExtNum int | ExtErr error
  and error =
    GraphQLError string "(string \<times> extval) list"
  | AuthenticationError string
  | TypeError string
  | JsonWebTokenError string
  | StoreError
  | RedisError

text \<open>\<open>try { body } catch (error) { handler }\<close>.\<close>

definition try_catch :: "error + 'a \<Rightarrow> (error \<Rightarrow> error + 'a) \<Rightarrow> error + 'a" where
  "try_catch body handler = (case body of Inl e \<Rightarrow> handler e | Inr v \<Rightarrow> Inr v)"

section \<open>Data model (src/types/index.ts, the mongoose models)\<close>

text \<open>
  \<open>role\<close> is kept as the string the store holds: the enum \<open>UserRole\<close> has the values
  \<open>"USER"\<close>, \<open>"ADMIN"\<close> and \<open>"MODERATOR"\<close>, and the code compares it with string literals.
\<close>

record user =
  user_id :: string
  username :: string
  email :: string
  password :: "string option"
  role :: string
  refreshToken :: "string option"

definition UserRole_values :: "string list" where
  "UserRole_values = [''USER'', ''ADMIN'', ''MODERATOR'']"

record post =
  post_id :: string
  title :: string
  author :: string
  published :: bool

record comment =
  comment_id :: string
  comment_author :: string
  comment_post :: string

record graphQLContext =
  user :: "user option"
  isAuthenticated :: bool

record tokenPayload =
  userId :: string
  tp_username :: string
  tp_email :: string
  tp_role :: string

text \<open>
  The document store: three collections.  \<open>connected\<close> is False when the database
  rejects every call; it is never changed by the operations below, so an operation that
  fails leaves the collections as they were.
\<close>

record db =
  users :: "user list"
  posts :: "post list"
  comments :: "comment list"
  connected :: bool

text \<open>
  \<open>User.findById(id)\<close>.  The schema declares \<open>password\<close> and \<open>refreshToken\<close> with
  \<open>select: false\<close>: the document comes back without them (\<open>None\<close>) unless the query
  says \<open>.select("+password")\<close> or \<open>.select("+refreshToken")\<close>.
\<close>

definition project :: "bool \<Rightarrow> bool \<Rightarrow> user \<Rightarrow> user" where
  "project withPassword withRefreshToken u =
     u\<lparr>password := (if withPassword then password u else None),
       refreshToken := (if withRefreshToken then refreshToken u else None)\<rparr>"

definition User_findById_select :: "db \<Rightarrow> string \<Rightarrow> bool \<Rightarrow> bool \<Rightarrow> error + user option" where
  "User_findById_select d i withPassword withRefreshToken =
     (if connected d
      then Inr (map_option (project withPassword withRefreshToken)
                  (find (\<lambda>u. user_id u = i) (users d)))
      else Inl StoreError)"

definition User_findById :: "db \<Rightarrow> string \<Rightarrow> error + user option" where
  "User_findById d i = User_findById_select d i False False"

text \<open>\<open>User.findByIdAndUpdate(id, {$unset: {refreshToken: 1}})\<close>.\<close>

definition User_unsetRefreshToken :: "db \<Rightarrow> string \<Rightarrow> error + db" where
  "User_unsetRefreshToken d i =
     (if connected d
      then Inr (d\<lparr>users := map (\<lambda>u. if user_id u = i then u\<lparr>refreshToken := None\<rparr> else u)
                               (users d)\<rparr>)
      else Inl StoreError)"

definition Post_findById :: "db \<Rightarrow> string \<Rightarrow> error + post option" where
  "Post_findById d i =
     (if connected d then Inr (find (\<lambda>p. post_id p = i) (posts d)) else Inl StoreError)"

text \<open>\<open>Comment.deleteMany({post: id})\<close> and \<open>Post.findByIdAndDelete(id)\<close>.\<close>

definition Comment_deleteMany_post :: "db \<Rightarrow> string \<Rightarrow> error + db" where
  "Comment_deleteMany_post d i =
     (if connected d
      then Inr (d\<lparr>comments := filter (\<lambda>c. comment_post c \<noteq> i) (comments d)\<rparr>)
      else Inl StoreError)"

definition Post_findByIdAndDelete :: "db \<Rightarrow> string \<Rightarrow> error + db" where
  "Post_findByIdAndDelete d i =
     (if connected d
      then Inr (d\<lparr>posts := filter (\<lambda>p. post_id p \<noteq> i) (posts d)\<rparr>)
      else Inl StoreError)"

section \<open>Token utilities (src/utils/jwt.ts)\<close>

text \<open>\<open>String.prototype.split(sep)\<close> for a one-character separator.\<close>

fun splitOn :: "char \<Rightarrow> string \<Rightarrow> string list" where
  "splitOn c [] = [[]]"
| "splitOn c (x # xs) =
     (if x = c then [] # splitOn c xs
      else (case splitOn c xs of
              [] \<Rightarrow> [[x]]
            | w # ws \<Rightarrow> (x # w) # ws))"

text \<open>
  \<open>extractTokenFromHeader\<close>: \<open>None\<close> is the \<open>null\<close> the source returns; an absent or
  empty header is falsy.
\<close>

definition extractTokenFromHeader :: "string option \<Rightarrow> string option" where
  "extractTokenFromHeader authHeader =
     (case authHeader of
        None \<Rightarrow> None
      | Some h \<Rightarrow>
          if h = [] then None
          else (let parts = splitOn CHR '' '' h
                in if length parts \<noteq> 2 \<or> parts ! 0 \<noteq> ''Bearer'' then None
                   else Some (parts ! 1)))"

text \<open>
  \<open>verifyAccessToken\<close> and \<open>verifyRefreshToken\<close>.  \<open>jwt.verify\<close> of the jsonwebtoken
  package (signature, expiry, issuer and audience under the given secret, at the
  current time) is a parameter: it returns the payload or throws.
\<close>

type_synonym jwtVerify = "string \<Rightarrow> error + tokenPayload"

definition verifyAccessToken :: "jwtVerify \<Rightarrow> string \<Rightarrow> tokenPayload option" where
  "verifyAccessToken jwt_verify_access token =
     (case jwt_verify_access token of Inl e \<Rightarrow> None | Inr decoded \<Rightarrow> Some decoded)"

definition verifyRefreshToken :: "jwtVerify \<Rightarrow> string \<Rightarrow> tokenPayload option" where
  "verifyRefreshToken jwt_verify_refresh token =
     (case jwt_verify_refresh token of Inl e \<Rightarrow> None | Inr decoded \<Rightarrow> Some decoded)"

section \<open>Authentication middleware (middleware/auth)\<close>

definition anonymousContext :: graphQLContext where
  "anonymousContext = \<lparr>user = None, isAuthenticated = False\<rparr>"

text \<open>\<open>a || b\<close> on header values: \<open>undefined\<close> and the empty string are falsy.\<close>

definition js_or :: "string option \<Rightarrow> string option \<Rightarrow> string option" where
  "js_or a b = (case a of None \<Rightarrow> b | Some s \<Rightarrow> if s = [] then b else Some s)"

text \<open>\<open>createContext(req)\<close>; the request is given by its header map.\<close>

definition createContext ::
  "jwtVerify \<Rightarrow> db \<Rightarrow> (string \<rightharpoonup> string) \<Rightarrow> error + graphQLContext" where
  "createContext jwt_verify_access d headers =
     (let authHeader = js_or (headers ''authorization'') (headers ''Authorization'')
      in case extractTokenFromHeader authHeader of
           None \<Rightarrow> Inr anonymousContext
         | Some token \<Rightarrow>
             if token = [] then Inr anonymousContext
             else try_catch
                    (case verifyAccessToken jwt_verify_access token of
                       None \<Rightarrow> Inr anonymousContext
                     | Some payload \<Rightarrow>
                         (case User_findById d (userId payload) of
                            Inl e \<Rightarrow> Inl e
                          | Inr None \<Rightarrow> Inr anonymousContext
                          | Inr (Some u) \<Rightarrow> Inr \<lparr>user = Some u, isAuthenticated = True\<rparr>))
                    (\<lambda>error. Inr anonymousContext))"

text \<open>
  The helpers below take an argument typed \<open>any\<close>.  The resolvers call them with the
  GraphQL context object, the helpers call one another with what they take to be a user
  document, so the argument is one of: \<open>undefined\<close>, a context object, a user document.
  Reading a property the object does not have gives \<open>undefined\<close> (\<open>None\<close> below).
\<close>

datatype anyArg = Undefined | Ctx graphQLContext | Usr user

fun truthy :: "anyArg \<Rightarrow> bool" where
  "truthy Undefined = False"
| "truthy (Ctx c) = True"
| "truthy (Usr u) = True"

fun prop_user :: "anyArg \<Rightarrow> anyArg" where
  "prop_user (Ctx c) = (case user c of None \<Rightarrow> Undefined | Some u \<Rightarrow> Usr u)"
| "prop_user (Usr u) = Undefined"
| "prop_user Undefined = Undefined"

fun prop_role :: "anyArg \<Rightarrow> string option" where
  "prop_role (Usr u) = Some (role u)"
| "prop_role (Ctx c) = None"
| "prop_role Undefined = None"

fun prop_id :: "anyArg \<Rightarrow> string option" where
  "prop_id (Usr u) = Some (user_id u)"
| "prop_id (Ctx c) = None"
| "prop_id Undefined = None"

definition requireAuth :: "anyArg \<Rightarrow> error + anyArg" where
  "requireAuth ctx =
     (if \<not> truthy ctx
      then Inl (AuthenticationError ''You must be logged in to perform this action'')
      else Inr (prop_user ctx))"

text \<open>\<open>requiredRoles.includes(user.role)\<close>: \<open>undefined\<close> is in no list of strings.\<close>

definition array_includes :: "string list \<Rightarrow> string option \<Rightarrow> bool" where
  "array_includes xs v = (case v of None \<Rightarrow> False | Some s \<Rightarrow> s \<in> set xs)"

fun join :: "string \<Rightarrow> string list \<Rightarrow> string" where
  "join sep [] = []"
| "join sep [x] = x"
| "join sep (x # y # ys) = x @ sep @ join sep (y # ys)"

definition requireRole :: "anyArg \<Rightarrow> string list \<Rightarrow> error + anyArg" where
  "requireRole usr requiredRoles =
     (case requireAuth usr of
        Inl e \<Rightarrow> Inl e
      | Inr _ \<Rightarrow>
          if \<not> array_includes requiredRoles (prop_role usr)
          then Inl (AuthenticationError
                 (''Insufficient permissions. Required roles: '' @ join '', '' requiredRoles))
          else Inr usr)"

definition requireAdmin :: "anyArg \<Rightarrow> error + anyArg" where
  "requireAdmin usr = requireRole usr [''admin'']"

text \<open>
  \<open>requireOwnership\<close>: \<open>&&\<close> evaluates \<open>user._id.toString()\<close> only when the role is
  not \<open>"admin"\<close>, and that call throws a TypeError when \<open>user._id\<close> is \<open>undefined\<close>.
\<close>

definition requireOwnership :: "anyArg \<Rightarrow> string \<Rightarrow> error + anyArg" where
  "requireOwnership usr resourceUserId =
     (case requireAuth usr of
        Inl e \<Rightarrow> Inl e
      | Inr _ \<Rightarrow>
          if prop_role usr \<noteq> Some ''admin''
          then (case prop_id usr of
                  None \<Rightarrow>
                    Inl (TypeError ''Cannot read properties of undefined (reading toString)'')
                | Some i \<Rightarrow>
                    if i \<noteq> resourceUserId
                    then Inl (AuthenticationError ''You can only access your own resources'')
                    else Inr usr)
          else Inr usr)"

section \<open>Resolvers (src/schema/resolvers)\<close>

text \<open>\<open>Query.me\<close>.\<close>

definition me :: "graphQLContext \<Rightarrow> error + anyArg" where
  "me ctx = requireAuth (Ctx ctx)"

text \<open>
  \<open>Mutation.logout\<close>: the whole body is inside \<open>try\<close>, and every exception is replaced
  by the \<open>LOGOUT_FAILED\<close> error.  The result is the returned value with the new store.
\<close>

definition logout :: "db \<Rightarrow> graphQLContext \<Rightarrow> error + bool \<times> db" where
  "logout d ctx =
     try_catch
       (case requireAuth (Ctx ctx) of
          Inl e \<Rightarrow> Inl e
        | Inr usr \<Rightarrow>
            (case prop_id usr of
               None \<Rightarrow> (if usr = Undefined
                        then Inl (TypeError ''Cannot read properties of undefined (reading _id)'')
                        else Inr (True, d))
             | Some i \<Rightarrow>
                 (case User_unsetRefreshToken d i of
                    Inl e \<Rightarrow> Inl e
                  | Inr d' \<Rightarrow> Inr (True, d'))))
       (\<lambda>error. Inl (GraphQLError ''Logout failed'' [(''code'', ExtStr ''LOGOUT_FAILED'')]))"

text \<open>
  \<open>Mutation.refreshToken\<close>.  \<open>generateAccessToken\<close> (\<open>jwt.sign\<close> under the access
  secret) is a parameter.  A GraphQLError thrown inside \<open>try\<close> is rethrown, anything
  else becomes \<open>TOKEN_REFRESH_FAILED\<close>.
\<close>

definition invalidRefreshToken :: error where
  "invalidRefreshToken =
     GraphQLError ''Invalid refresh token'' [(''code'', ExtStr ''INVALID_REFRESH_TOKEN'')]"

fun isGraphQLError :: "error \<Rightarrow> bool" where
  "isGraphQLError (GraphQLError m x) = True"
| "isGraphQLError e = False"

definition refreshTokenMutation ::
  "jwtVerify \<Rightarrow> (tokenPayload \<Rightarrow> string) \<Rightarrow> db \<Rightarrow> string \<Rightarrow> error + string \<times> int" where
  "refreshTokenMutation jwt_verify_refresh generateAccessToken d token =
     try_catch
       (case verifyRefreshToken jwt_verify_refresh token of
          None \<Rightarrow> Inl invalidRefreshToken
        | Some payload \<Rightarrow>
            (case User_findById_select d (userId payload) False True of
               Inl e \<Rightarrow> Inl e
             | Inr None \<Rightarrow> Inl invalidRefreshToken
             | Inr (Some u) \<Rightarrow>
                 if refreshToken u \<noteq> Some token then Inl invalidRefreshToken
                 else Inr (generateAccessToken
                             \<lparr>userId = user_id u, tp_username = username u,
                              tp_email = email u, tp_role = role u\<rparr>,
                           15 * 60)))
       (\<lambda>error. if isGraphQLError error then Inl error
                else Inl (GraphQLError ''Token refresh failed''
                            [(''code'', ExtStr ''TOKEN_REFRESH_FAILED'')]))"

text \<open>
  \<open>AuthService.changePassword\<close> (src/services/authService.ts); bcrypt's \<open>compare\<close> and
  \<open>hash\<close> are parameters.
\<close>

definition changePassword ::
  "(string \<Rightarrow> string \<Rightarrow> bool) \<Rightarrow> (string \<Rightarrow> string) \<Rightarrow> db \<Rightarrow> string \<Rightarrow> string \<Rightarrow> string
     \<Rightarrow> error + bool \<times> db" where
  "changePassword comparePassword hashPassword d uid currentPassword newPassword =
     (case User_findById_select d uid True False of
        Inl e \<Rightarrow> Inl e
      | Inr None \<Rightarrow> Inl (AuthenticationError ''User not found'')
      | Inr (Some u) \<Rightarrow>
          (case password u of
             None \<Rightarrow> Inl (TypeError ''Illegal arguments: string, undefined'')
           | Some hashed \<Rightarrow>
               if \<not> comparePassword currentPassword hashed
               then Inl (AuthenticationError ''Current password is incorrect'')
               else Inr (True,
                      d\<lparr>users := map (\<lambda>v. if user_id v = uid
                                           then v\<lparr>password := Some (hashPassword newPassword),
                                                   refreshToken := None\<rparr>
                                           else v) (users d)\<rparr>)))"

text \<open>
  \<open>User.posts\<close> (userResolver.ts): the resolver-level admin test.  The result says
  whether the filter is restricted to published posts.
\<close>

definition User_posts_publishedOnly :: "graphQLContext \<Rightarrow> string \<Rightarrow> bool" where
  "User_posts_publishedOnly ctx parent_id =
     (case user ctx of
        None \<Rightarrow> True
      | Some currentUser \<Rightarrow> user_id currentUser \<noteq> parent_id \<and> role currentUser \<noteq> ''ADMIN'')"

text \<open>
  \<open>Mutation.deleteUser\<close> up to its authorization check, as the resolver calls it: with
  the context object.
\<close>

definition deleteUser_check :: "graphQLContext \<Rightarrow> error + anyArg" where
  "deleteUser_check ctx = requireAdmin (Ctx ctx)"

text \<open>\<open>Mutation.deletePost\<close> (postResolver.ts).\<close>

definition postNotFound :: error where
  "postNotFound = GraphQLError ''Post not found'' [(''code'', ExtStr ''POST_NOT_FOUND'')]"

definition deletePost :: "db \<Rightarrow> graphQLContext \<Rightarrow> string \<Rightarrow> error + bool \<times> db" where
  "deletePost d ctx i =
     (case Post_findById d i of
        Inl e \<Rightarrow> Inl e
      | Inr None \<Rightarrow> Inl postNotFound
      | Inr (Some p) \<Rightarrow>
          (case requireOwnership (Ctx ctx) (author p) of
             Inl e \<Rightarrow> Inl e
           | Inr _ \<Rightarrow>
               (case Comment_deleteMany_post d i of
                  Inl e \<Rightarrow> Inl e
                | Inr d1 \<Rightarrow>
                    (case Post_findByIdAndDelete d1 i of
                       Inl e \<Rightarrow> Inl e
                     | Inr d2 \<Rightarrow> Inr (True, d2)))))"

section \<open>JSON values and \<open>JSON.stringify\<close>\<close>

definition digit_char :: "nat \<Rightarrow> char" where
  "digit_char n = char_of (48 + n)"

fun show_nat :: "nat \<Rightarrow> string" where
  "show_nat n = (if n < 10 then [digit_char n] else show_nat (n div 10) @ [digit_char (n mod 10)])"

declare show_nat.simps [simp del]

definition show_int :: "int \<Rightarrow> string" where
  "show_int i = (if i < 0 then CHR ''-'' # show_nat (nat (- i)) else show_nat (nat i))"

definition hex_char :: "nat \<Rightarrow> char" where
  "hex_char n = (if n < 10 then char_of (48 + n) else char_of (87 + n))"

text \<open>
  The escape of one character inside a string literal: the quote, the backslash, the five
  short escapes, \<open>\u00XX\<close> for the other control characters, the character itself
  otherwise.
\<close>

definition escape_char :: "char \<Rightarrow> string" where
  "escape_char c =
     (if c = CHR 0x22 then [CHR 0x5C, CHR 0x22]
      else if c = CHR 0x5C then [CHR 0x5C, CHR 0x5C]
      else if c = CHR 0x08 then [CHR 0x5C, CHR ''b'']
      else if c = CHR 0x09 then [CHR 0x5C, CHR ''t'']
      else if c = CHR 0x0A then [CHR 0x5C, CHR ''n'']
      else if c = CHR 0x0C then [CHR 0x5C, CHR ''f'']
      else if c = CHR 0x0D then [CHR 0x5C, CHR ''r'']
      else if (of_char c :: nat) < 32
      then [CHR 0x5C, CHR ''u'', CHR ''0'', CHR ''0'',
            hex_char (of_char c div 16), hex_char (of_char c mod 16)]
      else [c])"

definition quote :: "string \<Rightarrow> string" where
  "quote s = CHR 0x22 # concat (map escape_char s) @ [CHR 0x22]"

text \<open>
  A JavaScript number.  A finite number other than zero is given the way the language
  definition of \<open>Number::toString\<close> reads it: its sign, the digits \<open>s\<close> of its shortest
  decimal form (most significant first, \<open>k\<close> of them) and the exponent \<open>n\<close>, the number
  being \<open>0.s\<close> times ten to the \<open>n\<close>.  \<open>Infinity b\<close> and \<open>Zero b\<close> are negative when
  \<open>b\<close> holds.  \<open>JSON.parse\<close> yields \<open>Infinity\<close> for a literal beyond the range of a
  double (\<open>1e999\<close>) and negative zero for \<open>-0\<close>.
\<close>

datatype jsnum = NaN | Infinity bool | Zero bool | Finite bool "nat list" int

text \<open>The digits of a shortest decimal form: decimal digits, no leading or trailing zero.\<close>

definition digits_ok :: "nat list \<Rightarrow> bool" where
  "digits_ok ds = (ds \<noteq> [] \<and> list_all (\<lambda>d. d < 10) ds \<and> hd ds \<noteq> 0 \<and> last ds \<noteq> 0)"

definition exponent_text :: "int \<Rightarrow> string" where
  "exponent_text e =
     CHR ''e'' # (if e < 0 then CHR ''-'' else CHR ''+'') # show_nat (nat \<bar>e\<bar>)"

text \<open>\<open>Number::toString\<close> of a positive finite number, radix 10 (ECMA-262, steps 7 to 11).\<close>

definition finite_text :: "nat list \<Rightarrow> int \<Rightarrow> string" where
  "finite_text ds n =
     (let k = int (length ds); dg = map digit_char ds
      in if k \<le> n \<and> n \<le> 21 then dg @ replicate (nat (n - k)) CHR ''0''
         else if 0 < n \<and> n \<le> 21 then take (nat n) dg @ CHR ''.'' # drop (nat n) dg
         else if - 6 < n \<and> n \<le> 0
         then CHR ''0'' # CHR ''.'' # replicate (nat (- n)) CHR ''0'' @ dg
         else if k = 1 then dg @ exponent_text (n - 1)
         else hd dg # CHR ''.'' # tl dg @ exponent_text (n - 1))"

text \<open>
  What \<open>JSON.stringify\<close> prints for a number: \<open>null\<close> when it is not finite, \<open>0\<close> for
  both zeros, \<open>Number::toString\<close> otherwise.
\<close>

definition num_text :: "jsnum \<Rightarrow> string" where
  "num_text x =
     (case x of
        NaN \<Rightarrow> ''null''
      | Infinity neg \<Rightarrow> ''null''
      | Zero neg \<Rightarrow> ''0''
      | Finite neg ds n \<Rightarrow> (if neg then CHR ''-'' # finite_text ds n else finite_text ds n))"

text \<open>
  The values a request carries in \<open>variables\<close> and a result carries in \<open>data\<close>.  An
  object is the list of its members in enumeration order.
\<close>

datatype json =
    JNull
  | JBool bool
  | JNum jsnum
  | JStr string
  | JArr "json list"
  | JObj "(string \<times> json) list"

fun stringify :: "json \<Rightarrow> string"
  and stringify_elems :: "json list \<Rightarrow> string"
  and stringify_members :: "(string \<times> json) list \<Rightarrow> string" where
  "stringify JNull = ''null''"
| "stringify (JBool b) = (if b then ''true'' else ''false'')"
| "stringify (JNum x) = num_text x"
| "stringify (JStr s) = quote s"
| "stringify (JArr xs) = ''['' @ stringify_elems xs @ '']''"
| "stringify (JObj ms) = ''{'' @ stringify_members ms @ ''}''"
| "stringify_elems [] = []"
| "stringify_elems (x # xs) =
     (if xs = [] then stringify x else stringify x @ '','' @ stringify_elems xs)"
| "stringify_members [] = []"
| "stringify_members ((k, v) # ms) =
     (if ms = [] then quote k @ '':'' @ stringify v
      else quote k @ '':'' @ stringify v @ '','' @ stringify_members ms)"

text \<open>
  The values \<open>JSON.stringify\<close> prints without loss: every number in them is finite, is
  not negative zero, and has the digits of a shortest decimal form.
\<close>

definition plain_num :: "jsnum \<Rightarrow> bool" where
  "plain_num x =
     (case x of
        NaN \<Rightarrow> False
      | Infinity neg \<Rightarrow> False
      | Zero neg \<Rightarrow> \<not> neg
      | Finite neg ds n \<Rightarrow> digits_ok ds)"

fun plain :: "json \<Rightarrow> bool"
  and plain_elems :: "json list \<Rightarrow> bool"
  and plain_members :: "(string \<times> json) list \<Rightarrow> bool" where
  "plain JNull = True"
| "plain (JBool b) = True"
| "plain (JNum x) = plain_num x"
| "plain (JStr s) = True"
| "plain (JArr xs) = plain_elems xs"
| "plain (JObj ms) = plain_members ms"
| "plain_elems [] = True"
| "plain_elems (x # xs) = (plain x \<and> plain_elems xs)"
| "plain_members [] = True"
| "plain_members ((k, v) # ms) = (plain v \<and> plain_members ms)"

text \<open>
  \<open>JSON.parse(JSON.stringify(v))\<close>: a number that is not finite comes back as \<open>null\<close>
  and negative zero as zero.
\<close>

definition reparse_num :: "jsnum \<Rightarrow> json" where
  "reparse_num x =
     (case x of
        NaN \<Rightarrow> JNull
      | Infinity neg \<Rightarrow> JNull
      | Zero neg \<Rightarrow> JNum (Zero False)
      | Finite neg ds n \<Rightarrow> JNum x)"

fun reparse :: "json \<Rightarrow> json"
  and reparse_elems :: "json list \<Rightarrow> json list"
  and reparse_members :: "(string \<times> json) list \<Rightarrow> (string \<times> json) list" where
  "reparse JNull = JNull"
| "reparse (JBool b) = JBool b"
| "reparse (JNum x) = reparse_num x"
| "reparse (JStr s) = JStr s"
| "reparse (JArr xs) = JArr (reparse_elems xs)"
| "reparse (JObj ms) = JObj (reparse_members ms)"
| "reparse_elems [] = []"
| "reparse_elems (x # xs) = reparse x # reparse_elems xs"
| "reparse_members [] = []"
| "reparse_members ((k, v) # ms) = (k, reparse v) # reparse_members ms"






section \<open>Requests and responses (the @apollo/server types the plugins read)\<close>

record request =
  query :: "string option"
  variables :: "json option"
  operationName :: "string option"
  hasHttpBody :: bool

record gqlResult =
  data :: "json option"
  errors :: "error list option"

datatype responseBody = Single gqlResult | Incremental

text \<open>
  A header value is a string, \<open>String(n)\<close> of an integer \<open>n\<close>, or
  \<open>String(t - ms / 1000)\<close> of integers \<open>t\<close> and \<open>ms\<close>.  The last is the text of the
  double that the division and the subtraction round to; \<open>HSecondsLeft t ms\<close> holds the
  two operands, and no decimal text is computed for it.
\<close>

datatype hval = HStr string | HNum int | HSecondsLeft int int

record httpHead =
  status :: "nat option"
  headers :: "string \<rightharpoonup> hval"

record response =
  body :: responseBody
  http :: "httpHead option"

section \<open>Query complexity plugin (src/plugins/complexityAnalysis.ts)\<close>

text \<open>
  \<open>ComplexityAnalysisConfig\<close>.  \<open>onComplete\<close> says whether the optional callback is
  configured; what the callback is called with is part of the hook's result below.
\<close>

record complexityConfig =
  maximumComplexity :: int
  maximumDepth :: int
  scalarCost :: int
  objectCost :: int
  listFactor :: int
  introspectionCost :: int
  createError :: "int \<Rightarrow> int \<Rightarrow> error"
  onComplete :: bool

text \<open>\<open>defaultConfig.createError\<close>; the message interpolates the two numbers.\<close>

definition default_createError :: "int \<Rightarrow> int \<Rightarrow> error" where
  "default_createError mx actual =
     GraphQLError
       (''Query complexity limit of '' @ show_int mx @ '' exceeded, found '' @ show_int actual
          @ ''.'')
       [(''code'', ExtStr ''QUERY_COMPLEXITY_LIMIT_EXCEEDED''),
        (''complexity'', ExtNum actual),
        (''maxComplexity'', ExtNum mx)]"

definition complexity_defaultConfig :: complexityConfig where
  "complexity_defaultConfig =
     \<lparr>maximumComplexity = 1000, maximumDepth = 10, scalarCost = 1, objectCost = 2,
      listFactor = 10, introspectionCost = 1000, createError = default_createError,
      onComplete = False\<rparr>"

text \<open>The configuration src/app.ts passes: \<open>{...defaultConfig, ...config}\<close>.\<close>

definition app_complexityConfig :: complexityConfig where
  "app_complexityConfig = complexity_defaultConfig\<lparr>maximumComplexity := 500, onComplete := True\<rparr>"

text \<open>What the hook leaves behind when it returns: the complexity stored on the HTTP
  body, and the arguments of the \<open>onComplete\<close> call.\<close>

record hookEffects =
  queryComplexity :: "int option"
  onCompleteArgs :: "(int \<times> int) option"

text \<open>
  \<open>didResolveOperation\<close>.  Two library functions are parameters: \<open>getComplexity\<close> of
  graphql-query-complexity (it returns the estimate of the document under the given
  variables, or throws) and \<open>depthLimit\<close> of graphql-depth-limit (given a maximum depth
  it returns a validation rule, here a function from the document to the errors it
  reports).  \<open>request.variables ?? {}\<close> replaces \<open>undefined\<close> and \<open>null\<close> by the empty
  object.
\<close>

definition nullish_variables :: "json option \<Rightarrow> json" where
  "nullish_variables v = (case v of None \<Rightarrow> JObj [] | Some JNull \<Rightarrow> JObj [] | Some x \<Rightarrow> x)"

definition didResolveOperation ::
  "complexityConfig \<Rightarrow> ('doc \<Rightarrow> json \<Rightarrow> error + int) \<Rightarrow> (int \<Rightarrow> 'doc \<Rightarrow> error list)
     \<Rightarrow> request \<Rightarrow> 'doc \<Rightarrow> error + hookEffects" where
  "didResolveOperation finalConfig getComplexity depthLimit req document =
     try_catch
       (case getComplexity document (nullish_variables (variables req)) of
          Inl e \<Rightarrow> Inl e
        | Inr complexity \<Rightarrow>
            if complexity > maximumComplexity finalConfig
            then Inl (createError finalConfig (maximumComplexity finalConfig) complexity)
            else (let depthValidationRules = [depthLimit (maximumDepth finalConfig)]
                  in Inr \<lparr>queryComplexity = (if hasHttpBody req then Some complexity else None),
                          onCompleteArgs =
                            (if onComplete finalConfig
                             then Some (complexity, maximumDepth finalConfig) else None)\<rparr>))
       (\<lambda>error. if isGraphQLError error then Inl error
                else Inl (GraphQLError ''Query complexity analysis failed''
                            [(''code'', ExtStr ''COMPLEXITY_ANALYSIS_ERROR''),
                             (''originalError'', ExtErr error)]))"

section \<open>Response cache plugin (plugins/caching)\<close>

record cacheEntry =
  ce_data :: gqlResult
  timestamp :: int
  ttl :: int

text \<open>
  The text stored under a Redis key, by what it decodes to: \<open>PlainJSON e\<close> is a JSON
  text that \<open>JSON.parse\<close> reads as the entry \<open>e\<close>, \<open>GzipBase64 e\<close> is the base64 text
  of the gzip of such a text, and \<open>Foreign s\<close> is any other text \<open>s\<close>, one that decodes
  to no cache entry.  \<open>JSON.parse\<close> gives the entry on the first and throws on the
  second, where gunzip then gives it.
\<close>

datatype stored = PlainJSON cacheEntry | GzipBase64 cacheEntry | Foreign string

text \<open>
  Redis: each key holds a text and the time (in milliseconds) at which it expires.
  \<open>up\<close> is False when the client rejects every call.  \<open>SETEX\<close> refuses a lifetime
  that is not positive.
\<close>

record redis =
  kv :: "string \<rightharpoonup> stored \<times> int"
  up :: bool

definition redis_get :: "redis \<Rightarrow> int \<Rightarrow> string \<Rightarrow> error + stored option" where
  "redis_get r now k =
     (if \<not> up r then Inl RedisError
      else Inr (case kv r k of
                  None \<Rightarrow> None
                | Some (v, expires) \<Rightarrow> if now < expires then Some v else None))"

definition redis_setex :: "redis \<Rightarrow> int \<Rightarrow> string \<Rightarrow> int \<Rightarrow> stored \<Rightarrow> error + redis" where
  "redis_setex r now k seconds v =
     (if \<not> up r then Inl RedisError
      else if seconds \<le> 0 then Inl RedisError
      else Inr (r\<lparr>kv := (kv r)(k \<mapsto> (v, now + 1000 * seconds))\<rparr>))"

record cacheConfig =
  defaultTTL :: int
  keyPrefix :: string
  enableCompression :: bool
  maxCacheSize :: nat
  cachableOperations :: "string list"
  skipCache :: "string option \<Rightarrow> bool"

text \<open>\<open>operationName || ""\<close>.\<close>

definition or_empty :: "string option \<Rightarrow> string" where
  "or_empty n = (case n of None \<Rightarrow> [] | Some s \<Rightarrow> s)"

definition cache_defaultConfig :: cacheConfig where
  "cache_defaultConfig =
     \<lparr>defaultTTL = 300, keyPrefix = ''graphql:cache:'', enableCompression = True,
      maxCacheSize = 1000000, cachableOperations = [''query''],
      skipCache = (\<lambda>operationName.
        or_empty operationName \<in> set [''me'', ''currentUser'', ''notifications''])\<rparr>"

text \<open>The configuration src/app.ts passes.\<close>

definition app_cacheConfig :: cacheConfig where
  "app_cacheConfig =
     \<lparr>defaultTTL = 300, keyPrefix = ''graphql:cache:'', enableCompression = True,
      maxCacheSize = 1024 * 1024, cachableOperations = [''query''],
      skipCache = (\<lambda>opName. or_empty opName \<in> set [''me'', ''notifications''])\<rparr>"

text \<open>
  \<open>generateCacheKey\<close>.  \<open>JSON.stringify\<close> leaves out a member whose value is
  \<open>undefined\<close>.  The SHA-256 digest in hexadecimal is a parameter.
\<close>

definition keyData :: "request \<Rightarrow> json" where
  "keyData req =
     JObj ((case query req of None \<Rightarrow> [] | Some q \<Rightarrow> [(''query'', JStr q)])
         @ (case variables req of None \<Rightarrow> [] | Some v \<Rightarrow> [(''variables'', v)])
         @ (case operationName req of None \<Rightarrow> [] | Some n \<Rightarrow> [(''operationName'', JStr n)]))"


definition generateCacheKey :: "(string \<Rightarrow> string) \<Rightarrow> request \<Rightarrow> string" where
  "generateCacheKey sha256_hex req = sha256_hex (stringify (keyData req))"

text \<open>
  The lengths the write path compares are those of texts the model does not hold; they
  are parameters: the length of \<open>JSON.stringify(cacheData)\<close> and the number of bytes of
  its gzip.  Base64 writes four characters for every three bytes.
\<close>

record sizes =
  jsonLength :: "cacheEntry \<Rightarrow> nat"
  gzipLength :: "cacheEntry \<Rightarrow> nat"

definition base64Length :: "nat \<Rightarrow> nat" where
  "base64Length n = 4 * ((n + 2) div 3)"

text \<open>\<open>a || b\<close> on numbers: zero is falsy.\<close>

definition num_or :: "'a::zero \<Rightarrow> 'a \<Rightarrow> 'a" where
  "num_or a b = (if a = 0 then b else a)"

text \<open>A string is truthy when it is defined and not empty.\<close>

definition str_truthy :: "string option \<Rightarrow> bool" where
  "str_truthy s = (s \<noteq> None \<and> s \<noteq> Some [])"

text \<open>The condition under which \<open>willSendResponse\<close> writes.\<close>

definition cacheable :: "cacheConfig \<Rightarrow> request \<Rightarrow> response \<Rightarrow> bool" where
  "cacheable finalConfig req resp =
     (str_truthy (operationName req)
      \<and> (case body resp of Single r \<Rightarrow> errors r = None | Incremental \<Rightarrow> False)
      \<and> array_includes (cachableOperations finalConfig) (operationName req)
      \<and> \<not> skipCache finalConfig (operationName req))"

definition singleResult :: "response \<Rightarrow> gqlResult" where
  "singleResult resp = (case body resp of Single r \<Rightarrow> r | Incremental \<Rightarrow> \<lparr>data = None, errors = None\<rparr>)"

text \<open>
  The entry that the text \<open>JSON.stringify(cacheData)\<close> reads back as.  Only a result
  without \<open>errors\<close> is written.
\<close>

definition reparse_entry :: "cacheEntry \<Rightarrow> cacheEntry" where
  "reparse_entry e = e\<lparr>ce_data := (ce_data e)\<lparr>data := map_option reparse (data (ce_data e))\<rparr>\<rparr>"

text \<open>The text to store and its length, after the compression step.\<close>

definition serialize :: "cacheConfig \<Rightarrow> sizes \<Rightarrow> cacheEntry \<Rightarrow> stored \<times> nat" where
  "serialize finalConfig sz cacheData =
     (if enableCompression finalConfig \<and> jsonLength sz cacheData > 1000
      then (if gzipLength sz cacheData < jsonLength sz cacheData
            then (GzipBase64 (reparse_entry cacheData), base64Length (gzipLength sz cacheData))
            else (PlainJSON (reparse_entry cacheData), jsonLength sz cacheData))
      else (PlainJSON (reparse_entry cacheData), jsonLength sz cacheData))"

definition set_header :: "string \<Rightarrow> hval \<Rightarrow> response \<Rightarrow> response" where
  "set_header k v resp =
     (case http resp of
        None \<Rightarrow> resp
      | Some h \<Rightarrow> resp\<lparr>http := Some (h\<lparr>headers := (headers h)(k \<mapsto> v)\<rparr>)\<rparr>)"

text \<open>
  \<open>willSendResponse\<close>, at time \<open>now\<close>: the new Redis state and the response with the
  headers it set.  An exception inside \<open>try\<close> is logged and swallowed; the only call
  that can throw is \<open>setex\<close>, before anything was changed.
\<close>

definition willSendResponse ::
  "cacheConfig \<Rightarrow> sizes \<Rightarrow> (string \<Rightarrow> string) \<Rightarrow> int \<Rightarrow> redis \<Rightarrow> request \<Rightarrow> response
     \<Rightarrow> redis \<times> response" where
  "willSendResponse finalConfig sz sha256_hex now r req resp =
     (if cacheable finalConfig req resp
      then (let cacheKey = generateCacheKey sha256_hex req;
                cacheData = \<lparr>ce_data = singleResult resp, timestamp = now,
                             ttl = num_or (defaultTTL finalConfig) 300\<rparr>;
                (serializedData, len) = serialize finalConfig sz cacheData
            in if len \<le> num_or (maxCacheSize finalConfig) 1000000
               then (case redis_setex r now (keyPrefix finalConfig @ cacheKey)
                            (num_or (defaultTTL finalConfig) 300) serializedData of
                       Inl e \<Rightarrow> (r, resp)
                     | Inr r' \<Rightarrow>
                         (r', set_header ''X-Cache-TTL'' (HNum (defaultTTL finalConfig))
                                (set_header ''X-Cache'' (HStr ''MISS'') resp)))
               else (r, resp))
      else (r, resp))"

text \<open>Reading a stored text back: \<open>JSON.parse\<close>, and gunzip when that throws.\<close>

definition decode :: "stored \<Rightarrow> error + cacheEntry" where
  "decode cached =
     (case cached of
        PlainJSON e \<Rightarrow> Inr e
      | GzipBase64 e \<Rightarrow> Inr e
      | Foreign s \<Rightarrow> Inl (TypeError ''incorrect header check''))"

fun stored_truthy :: "stored \<Rightarrow> bool" where
  "stored_truthy (Foreign s) = (s \<noteq> [])"
| "stored_truthy s = True"

text \<open>
  \<open>responseForOperation\<close>, at time \<open>now\<close>; \<open>None\<close> is the \<open>null\<close> that lets the
  server execute the operation.  \<open>operationName\<close> is the name the server resolved for
  the operation, \<open>req\<close> the request as it came.  \<open>age\<close> is a double in the source and
  the exact quotient here: for times that are integers below \<open>2 ^ 52\<close> in absolute
  value and an integer \<open>ttl\<close>, the quotient lies at least \<open>1 / 1000\<close> from every
  integer it does not equal, more than the division rounds by, so the comparison with
  \<open>ttl\<close> and \<open>Math.floor\<close> come out the same on both.
\<close>

definition responseForOperation ::
  "cacheConfig \<Rightarrow> (string \<Rightarrow> string) \<Rightarrow> int \<Rightarrow> redis \<Rightarrow> request \<Rightarrow> string option
     \<Rightarrow> response option" where
  "responseForOperation finalConfig sha256_hex now r req opName =
     (if str_truthy opName \<and> ''query'' \<in> set (cachableOperations finalConfig)
         \<and> \<not> skipCache finalConfig opName
      then (case redis_get r now (keyPrefix finalConfig @ generateCacheKey sha256_hex req) of
              Inl e \<Rightarrow> None
            | Inr None \<Rightarrow> None
            | Inr (Some cached) \<Rightarrow>
                if stored_truthy cached
                then (case decode cached of
                        Inl e \<Rightarrow> None
                      | Inr cacheData \<Rightarrow>
                          (let age = (of_int (now - timestamp cacheData) :: rat) / 1000
                           in if age < of_int (ttl cacheData)
                              then Some \<lparr>body = Single (ce_data cacheData),
                                         http = Some \<lparr>status = Some 200,
                                           headers = [''X-Cache'' \<mapsto> HStr ''HIT'',
                                                      ''X-Cache-Age'' \<mapsto> HNum \<lfloor>age\<rfloor>,
                                                      ''X-Cache-TTL'' \<mapsto>
                                                        HSecondsLeft (ttl cacheData)
                                                          (now - timestamp cacheData)]\<rparr>\<rparr>
                              else None))
                else None)
      else None)"

section \<open>The order in which the server runs the hooks\<close>

text \<open>
  Apollo Server calls \<open>didResolveOperation\<close> of every plugin first; when one throws,
  the response is that error with no data and nothing is executed.  Otherwise it
  asks \<open>responseForOperation\<close>, and executes the operation only when the answer is
  \<open>null\<close>.  \<open>willSendResponse\<close> runs last, on every response.  \<open>execute\<close> stands for
  the execution of the operation by the resolvers: it returns the result and the number
  of resolver calls it made.
\<close>

record outcome =
  out_response :: response
  resolverCalls :: nat
  out_redis :: redis

definition emptyHead :: httpHead where
  "emptyHead = \<lparr>status = None, headers = Map.empty\<rparr>"

definition processRequest ::
  "complexityConfig \<Rightarrow> ('doc \<Rightarrow> json \<Rightarrow> error + int) \<Rightarrow> (int \<Rightarrow> 'doc \<Rightarrow> error list)
     \<Rightarrow> cacheConfig \<Rightarrow> sizes \<Rightarrow> (string \<Rightarrow> string) \<Rightarrow> (request \<Rightarrow> gqlResult \<times> nat)
     \<Rightarrow> int \<Rightarrow> int \<Rightarrow> redis \<Rightarrow> request \<Rightarrow> 'doc \<Rightarrow> string option \<Rightarrow> outcome" where
  "processRequest ccfg getComplexity depthLimit cfg sz sha256_hex execute now now' r req document
       opName =
     (case didResolveOperation ccfg getComplexity depthLimit req document of
        Inl e \<Rightarrow>
          (let (r', resp) = willSendResponse cfg sz sha256_hex now' r req
                 \<lparr>body = Single \<lparr>data = None, errors = Some [e]\<rparr>, http = Some emptyHead\<rparr>
           in \<lparr>out_response = resp, resolverCalls = 0, out_redis = r'\<rparr>)
      | Inr _ \<Rightarrow>
          (case responseForOperation cfg sha256_hex now r req opName of
             Some cachedResponse \<Rightarrow>
               (let (r', resp) = willSendResponse cfg sz sha256_hex now' r req cachedResponse
                in \<lparr>out_response = resp, resolverCalls = 0, out_redis = r'\<rparr>)
           | None \<Rightarrow>
               (let (result, calls) = execute req;
                    (r', resp) = willSendResponse cfg sz sha256_hex now' r req
                       \<lparr>body = Single result, http = Some emptyHead\<rparr>
                in \<lparr>out_response = resp, resolverCalls = calls, out_redis = r'\<rparr>)))"

section \<open>Example data\<close>

text \<open>Concrete users, a store, a token verifier and requests, used to evaluate the code.\<close>

definition alice :: user where
  "alice = \<lparr>user_id = ''u1'', username = ''alice'', email = ''a@x.com'',
            password = Some ''h1'', role = ''USER'', refreshToken = Some ''r1''\<rparr>"

definition root_admin :: user where
  "root_admin = \<lparr>user_id = ''u0'', username = ''admin'', email = ''admin@example.com'',
            password = Some ''h0'', role = ''ADMIN'', refreshToken = None\<rparr>"

definition exampleDb :: db where
  "exampleDb =
     \<lparr>users = [root_admin, alice],
      posts = [\<lparr>post_id = ''p1'', title = ''Hello'', author = ''u1'', published = True\<rparr>],
      comments = [\<lparr>comment_id = ''c1'', comment_author = ''u0'', comment_post = ''p1''\<rparr>],
      connected = True\<rparr>"

definition exampleVerify :: jwtVerify where
  "exampleVerify t =
     (if t = ''tok1''
      then Inr \<lparr>userId = ''u1'', tp_username = ''alice'', tp_email = ''a@x.com'',
                tp_role = ''USER''\<rparr>
      else Inl (JsonWebTokenError ''invalid signature''))"

definition exampleVerifyRefresh :: jwtVerify where
  "exampleVerifyRefresh t =
     (if t = ''r1''
      then Inr \<lparr>userId = ''u1'', tp_username = ''alice'', tp_email = ''a@x.com'',
                tp_role = ''USER''\<rparr>
      else Inl (JsonWebTokenError ''invalid signature''))"

text \<open>
  A document is given by its selection set.  The two functions below stand in for the
  library parameters of \<open>didResolveOperation\<close> at a concrete query: the estimate of
  \<open>simpleEstimator\<close> (the default complexity for every field, plus that of its
  children) and the rule of graphql-depth-limit (a leaf field has depth 0, a field with a
  selection set one more than its deepest child).
\<close>

datatype selection = Field string "selection list"

fun sel_complexity :: "int \<Rightarrow> selection \<Rightarrow> int" where
  "sel_complexity c (Field n subs) = c + sum_list (map (sel_complexity c) subs)"

fun sel_depth :: "selection \<Rightarrow> nat" where
  "sel_depth (Field n subs) =
     (if subs = [] then 0 else 1 + fold max (map sel_depth subs) 0)"

definition example_getComplexity :: "selection list \<Rightarrow> json \<Rightarrow> error + int" where
  "example_getComplexity doc vars = Inr (sum_list (map (sel_complexity 1) doc))"

definition example_depthLimit :: "int \<Rightarrow> selection list \<Rightarrow> error list" where
  "example_depthLimit maxDepth doc =
     (if int (fold max (map sel_depth doc) 0) > maxDepth
      then [GraphQLError ''exceeds maximum operation depth'' []] else [])"

fun nested :: "nat \<Rightarrow> selection" where
  "nested 0 = Field ''id'' []"
| "nested (Suc n) = Field ''node'' [nested n]"

definition deepQuery :: "selection list" where
  "deepQuery = [nested 12]"

definition wideQuery :: "selection list" where
  "wideQuery = replicate 501 (Field ''id'' [])"

definition exampleRequest :: request where
  "exampleRequest = \<lparr>query = Some ''query { posts { id } }'', variables = None,
                      operationName = Some ''query'', hasHttpBody = True\<rparr>"

definition exampleResult :: gqlResult where
  "exampleResult = \<lparr>data = Some (JObj [(''posts'', JArr [JObj [(''id'', JStr ''p1'')]])]),
                     errors = None\<rparr>"

definition exampleResponse :: response where
  "exampleResponse = \<lparr>body = Single exampleResult,
                       http = Some \<lparr>status = None, headers = Map.empty\<rparr>\<rparr>"

definition example_execute :: "request \<Rightarrow> gqlResult \<times> nat" where
  "example_execute req = (exampleResult, 13)"

definition exampleSizes :: sizes where
  "exampleSizes = \<lparr>jsonLength = (\<lambda>e. 120), gzipLength = (\<lambda>e. 90)\<rparr>"

definition emptyRedis :: redis where
  "emptyRedis = \<lparr>kv = Map.empty, up = True\<rparr>"

definition aliceContext :: graphQLContext where
  "aliceContext = \<lparr>user = Some (project False False alice), isAuthenticated = True\<rparr>"

definition loggedOutDb :: db where
  "loggedOutDb = exampleDb\<lparr>users := [root_admin, alice\<lparr>refreshToken := None\<rparr>]\<rparr>"

definition bearerHeaders :: "string \<rightharpoonup> string" where
  "bearerHeaders = [''authorization'' \<mapsto> ''Bearer tok1'']"

definition unnamedRequest :: request where
  "unnamedRequest = \<lparr>query = Some ''{ posts { id } }'', variables = None,
                      operationName = None, hasHttpBody = True\<rparr>"

definition exampleEntry :: cacheEntry where
  "exampleEntry = \<lparr>ce_data = exampleResult, timestamp = 0, ttl = 300\<rparr>"

text \<open>A store that still holds \<open>exampleEntry\<close> for \<open>exampleRequest\<close> until time 400000.\<close>

definition staleRedis :: redis where
  "staleRedis =
     \<lparr>kv = [keyPrefix app_cacheConfig @ generateCacheKey id exampleRequest
               \<mapsto> (PlainJSON exampleEntry, 400000)],
      up = True\<rparr>"




text \<open>The query of \<open>exampleRequest\<close> sent as the named operation \<open>GetPosts\<close>.\<close>

definition getPostsRequest :: request where
  "getPostsRequest = \<lparr>query = Some ''query GetPosts { posts { id } }'', variables = None,
                       operationName = Some ''GetPosts'', hasHttpBody = True\<rparr>"

section \<open>Identity resolution\<close>

lemma splitOn_nonempty: "splitOn c xs \<noteq> []"
  by (induction xs) (auto split: list.splits)

lemma splitOn_single: "splitOn c xs = [v] \<Longrightarrow> xs = v \<and> c \<notin> set v"
proof (induction xs arbitrary: v)
  case Nil
  then show ?case by simp
next
  case (Cons x xs)
  show ?case
  proof (cases "x = c")
    case True
    with Cons.prems show ?thesis
      using splitOn_nonempty[of c xs] by simp
  next
    case False
    with Cons.prems obtain w where w: "splitOn c xs = [w]" "v = x # w"
      using splitOn_nonempty[of c xs] by (auto split: list.splits)
    from Cons.IH[OF w(1)] w(2) False show ?thesis by simp
  qed
qed

lemma splitOn_pair: "splitOn c xs = [u, v] \<Longrightarrow> xs = u @ c # v \<and> c \<notin> set v"
proof (induction xs arbitrary: u)
  case Nil
  then show ?case by simp
next
  case (Cons x xs)
  show ?case
  proof (cases "x = c")
    case True
    with Cons.prems have "u = []" "splitOn c xs = [v]" by auto
    with splitOn_single[of c xs v] True show ?thesis by simp
  next
    case False
    with Cons.prems obtain w where w: "splitOn c xs = [w, v]" "u = x # w"
      using splitOn_nonempty[of c xs] by (auto split: list.splits)
    from Cons.IH[OF w(1)] w(2) show ?thesis by simp
  qed
qed

text \<open>A token is extracted only from a header that reads \<open>Bearer\<close>, one space, the token.\<close>

lemma extractTokenFromHeader_form:
  assumes h: "extractTokenFromHeader a = Some t"
  shows "a = Some (''Bearer '' @ t) \<and> CHR '' '' \<notin> set t"
proof -
  from h obtain s where s: "a = Some s"
    by (cases a) (auto simp: extractTokenFromHeader_def)
  from h s have len: "length (splitOn CHR '' '' s) = 2"
    and hd: "splitOn CHR '' '' s ! 0 = ''Bearer''"
    and t: "splitOn CHR '' '' s ! 1 = t"
    by (auto simp: extractTokenFromHeader_def Let_def split: if_splits)
  from len obtain p q where pq: "splitOn CHR '' '' s = [p, q]"
    by (cases "splitOn CHR '' '' s"; cases "tl (splitOn CHR '' '' s)") auto
  with hd t have "splitOn CHR '' '' s = [''Bearer'', t]" by simp
  from splitOn_pair[OF this] s show ?thesis by simp
qed

lemma extractTokenFromHeader_examples:
  "extractTokenFromHeader (Some ''Bearer bad'') = Some ''bad''"
  "extractTokenFromHeader (Some ''Bearer tok1'') = Some ''tok1''"
  "extractTokenFromHeader (Some ''Basic abc'') = None"
  by (simp_all add: extractTokenFromHeader_def)

lemma createContext_total: "\<exists>ctx. createContext jv d h = Inr ctx"
  by (auto simp: createContext_def Let_def try_catch_def split: option.splits sum.splits)

lemma createContext_no_token:
  "extractTokenFromHeader (js_or (h ''authorization'') (h ''Authorization'')) = None
   \<Longrightarrow> createContext jv d h = Inr anonymousContext"
  by (simp add: createContext_def)

text \<open>
  C6.  \<open>createContext\<close> never throws: it always returns a context.  It returns the
  anonymous context when no Authorization header is present, when the header is not
  \<open>Bearer\<close>, one space and a non-empty token without spaces, when \<open>jwt.verify\<close> throws
  on the token, and when the token verifies but no user with the payload's id is in the
  store.
\<close>

theorem createContext_degrades_to_anonymous:
  "(\<exists>ctx. createContext jv d h = Inr ctx) \<and>
   (h ''authorization'' = None \<and> h ''Authorization'' = None
      \<longrightarrow> createContext jv d h = Inr anonymousContext) \<and>
   ((\<nexists>t. t \<noteq> [] \<and> CHR '' '' \<notin> set t \<and>
          js_or (h ''authorization'') (h ''Authorization'') = Some (''Bearer '' @ t))
      \<longrightarrow> createContext jv d h = Inr anonymousContext) \<and>
   (\<forall>t e. extractTokenFromHeader (js_or (h ''authorization'') (h ''Authorization'')) = Some t
           \<and> jv t = Inl e
      \<longrightarrow> createContext jv d h = Inr anonymousContext) \<and>
   (\<forall>t p. extractTokenFromHeader (js_or (h ''authorization'') (h ''Authorization'')) = Some t
           \<and> jv t = Inr p \<and> find (\<lambda>u. user_id u = userId p) (users d) = None
      \<longrightarrow> createContext jv d h = Inr anonymousContext)"
proof (intro conjI impI allI)
  show "\<exists>ctx. createContext jv d h = Inr ctx" by (rule createContext_total)
next
  assume "h ''authorization'' = None \<and> h ''Authorization'' = None"
  then show "createContext jv d h = Inr anonymousContext"
    by (simp add: createContext_def js_or_def extractTokenFromHeader_def)
next
  assume nf: "\<nexists>t. t \<noteq> [] \<and> CHR '' '' \<notin> set t \<and>
         js_or (h ''authorization'') (h ''Authorization'') = Some (''Bearer '' @ t)"
  show "createContext jv d h = Inr anonymousContext"
  proof (cases "extractTokenFromHeader (js_or (h ''authorization'') (h ''Authorization''))")
    case None
    then show ?thesis by (rule createContext_no_token)
  next
    case (Some t)
    from extractTokenFromHeader_form[OF Some] nf have "t = []" by blast
    with Some show ?thesis by (simp add: createContext_def)
  qed
next
  fix t e
  assume "extractTokenFromHeader (js_or (h ''authorization'') (h ''Authorization'')) = Some t
          \<and> jv t = Inl e"
  then show "createContext jv d h = Inr anonymousContext"
    by (simp add: createContext_def verifyAccessToken_def try_catch_def)
next
  fix t p
  assume "extractTokenFromHeader (js_or (h ''authorization'') (h ''Authorization'')) = Some t
          \<and> jv t = Inr p \<and> find (\<lambda>u. user_id u = userId p) (users d) = None"
  then show "createContext jv d h = Inr anonymousContext"
    by (simp add: createContext_def verifyAccessToken_def try_catch_def User_findById_def
        User_findById_select_def)
qed

theorem createContext_degrades_to_anonymous_witness:
  "createContext exampleVerify exampleDb Map.empty = Inr anonymousContext \<and>
   createContext exampleVerify exampleDb [''authorization'' \<mapsto> ''Basic abc'']
     = Inr anonymousContext \<and>
   createContext exampleVerify exampleDb [''authorization'' \<mapsto> ''Bearer bad'']
     = Inr anonymousContext \<and>
   createContext exampleVerify (exampleDb\<lparr>users := []\<rparr>) bearerHeaders = Inr anonymousContext \<and>
   createContext exampleVerify exampleDb bearerHeaders = Inr aliceContext"
proof -
  note ex = extractTokenFromHeader_examples
  have a: "createContext exampleVerify exampleDb Map.empty = Inr anonymousContext"
    using createContext_degrades_to_anonymous[of exampleVerify exampleDb Map.empty] by simp
  have b: "createContext exampleVerify exampleDb [''authorization'' \<mapsto> ''Basic abc'']
             = Inr anonymousContext"
    using createContext_degrades_to_anonymous
            [of exampleVerify exampleDb "[''authorization'' \<mapsto> ''Basic abc'']"]
    by (simp add: js_or_def)
  have c: "createContext exampleVerify exampleDb [''authorization'' \<mapsto> ''Bearer bad'']
             = Inr anonymousContext"
    using createContext_degrades_to_anonymous
            [of exampleVerify exampleDb "[''authorization'' \<mapsto> ''Bearer bad'']"] ex
    by (simp add: js_or_def exampleVerify_def)
  have d: "createContext exampleVerify (exampleDb\<lparr>users := []\<rparr>) bearerHeaders
             = Inr anonymousContext"
    using createContext_degrades_to_anonymous
            [of exampleVerify "exampleDb\<lparr>users := []\<rparr>" bearerHeaders] ex
    by (simp add: js_or_def exampleVerify_def bearerHeaders_def)
  have e: "createContext exampleVerify exampleDb bearerHeaders = Inr aliceContext"
    by (simp add: createContext_def js_or_def ex exampleVerify_def verifyAccessToken_def
        try_catch_def User_findById_def User_findById_select_def project_def exampleDb_def
        alice_def root_admin_def bearerHeaders_def aliceContext_def)
  from a b c d e show ?thesis by simp
qed

section \<open>Session invalidation\<close>

lemma find_map_user_id:
  fixes f :: "user \<Rightarrow> user"
  shows "(\<And>u. user_id (f u) = user_id u) \<Longrightarrow>
   find (\<lambda>u. user_id u = i) (map f us) = map_option f (find (\<lambda>u. user_id u = i) us)"
  by (induction us) auto

lemma User_findById_after_update:
  fixes f :: "user \<Rightarrow> user"
  assumes "\<And>u. user_id (f u) = user_id u"
    and "\<And>u. project False False (f u) = project False False u"
  shows "User_findById (d\<lparr>users := map f (users d)\<rparr>) i = User_findById d i"
  using assms
  by (simp add: User_findById_def User_findById_select_def find_map_user_id option.map_comp
      comp_def)

lemma createContext_cong:
  assumes "\<And>i. User_findById d' i = User_findById d i"
  shows "createContext jv d' h = createContext jv d h"
  by (auto simp: createContext_def assms split: option.splits)

lemma refreshToken_rejected:
  fixes f :: "user \<Rightarrow> user"
  assumes id: "\<And>u. user_id (f u) = user_id u"
    and clr: "\<And>u. user_id u = i \<Longrightarrow> refreshToken (f u) = None"
    and con: "connected d" and tok: "jr tok = Inr p" and p: "userId p = i"
  shows "refreshTokenMutation jr gen (d\<lparr>users := map f (users d)\<rparr>) tok
           = Inl invalidRefreshToken"
proof -
  let ?d = "d\<lparr>users := map f (users d)\<rparr>"
  have sel: "User_findById_select ?d i False True =
      Inr (map_option (project False True \<circ> f) (find (\<lambda>u. user_id u = i) (users d)))"
    using con id by (simp add: User_findById_select_def find_map_user_id option.map_comp)
  have v: "verifyRefreshToken jr tok = Some p"
    using tok by (simp add: verifyRefreshToken_def)
  have g: "isGraphQLError invalidRefreshToken" by (simp add: invalidRefreshToken_def)
  show ?thesis
  proof (cases "find (\<lambda>u. user_id u = i) (users d)")
    case None
    with sel v p g show ?thesis
      by (simp add: refreshTokenMutation_def try_catch_def)
  next
    case (Some u)
    then have "user_id u = i" by (auto simp: find_Some_iff)
    then have "refreshToken (project False True (f u)) = None" by (simp add: clr project_def)
    with sel v p g Some show ?thesis
      by (simp add: refreshTokenMutation_def try_catch_def)
  qed
qed

lemma logout_result:
  "user ctx = Some u \<Longrightarrow> logout d ctx = Inr (b, d') \<Longrightarrow> connected d \<and>
   d' = d\<lparr>users := map (\<lambda>v. if user_id v = user_id u then v\<lparr>refreshToken := None\<rparr> else v)
                       (users d)\<rparr>"
  by (auto simp: logout_def requireAuth_def try_catch_def User_unsetRefreshToken_def
      split: if_splits sum.splits)

lemma changePassword_result:
  "changePassword cmp hp d i cur new = Inr (b, d') \<Longrightarrow> connected d \<and>
   d' = d\<lparr>users := map (\<lambda>v. if user_id v = i
                              then v\<lparr>password := Some (hp new), refreshToken := None\<rparr>
                              else v) (users d)\<rparr>"
  by (auto simp: changePassword_def User_findById_select_def
      split: if_splits sum.splits option.splits)

text \<open>
  C2, as the code has it.  After \<open>logout\<close> or \<open>changePassword\<close> has cleared the stored
  refresh token of a subject, every request resolves to the same context as before the
  invalidation, so a still valid access credential still resolves to the authenticated
  subject; what fails from then on is the refresh exchange: \<open>refreshToken\<close> with any
  refresh credential naming that subject throws \<open>INVALID_REFRESH_TOKEN\<close>.
\<close>

theorem invalidation_blocks_refresh_only:
  assumes "(user ctx = Some u \<and> logout d ctx = Inr (True, d')) \<or>
           changePassword cmp hp d (user_id u) cur new = Inr (True, d')"
  shows "createContext jv d' h = createContext jv d h \<and>
         (\<forall>jr gen tok p. jr tok = Inr p \<and> userId p = user_id u
            \<longrightarrow> refreshTokenMutation jr gen d' tok = Inl invalidRefreshToken)"
proof -
  define f1 where "f1 = (\<lambda>v::user. if user_id v = user_id u then v\<lparr>refreshToken := None\<rparr> else v)"
  define f2 where "f2 = (\<lambda>v::user. if user_id v = user_id u
                         then v\<lparr>password := Some (hp new), refreshToken := None\<rparr> else v)"
  from assms obtain f where con: "connected d" and d': "d' = d\<lparr>users := map f (users d)\<rparr>"
    and f: "f = f1 \<or> f = f2"
  proof
    assume a: "user ctx = Some u \<and> logout d ctx = Inr (True, d')"
    from logout_result[OF conjunct1[OF a] conjunct2[OF a]] that[of f1] show thesis
      by (simp add: f1_def)
  next
    assume a: "changePassword cmp hp d (user_id u) cur new = Inr (True, d')"
    from changePassword_result[OF a] that[of f2] show thesis
      by (simp add: f2_def)
  qed
  from f have id: "\<And>v. user_id (f v) = user_id v"
    by (auto simp: f1_def f2_def)
  from f have pr: "\<And>v. project False False (f v) = project False False v"
    by (auto simp: f1_def f2_def project_def)
  from f have clr: "\<And>v. user_id v = user_id u \<Longrightarrow> refreshToken (f v) = None"
    by (auto simp: f1_def f2_def)
  have 1: "\<And>i. User_findById d' i = User_findById d i"
    unfolding d' using id pr by (rule User_findById_after_update)
  have 2: "\<And>jr gen tok p. jr tok = Inr p \<Longrightarrow> userId p = user_id u \<Longrightarrow>
        refreshTokenMutation jr gen d' tok = Inl invalidRefreshToken"
    unfolding d' using id clr con by (rule refreshToken_rejected)
  from 1 have "createContext jv d' h = createContext jv d h" by (rule createContext_cong)
  with 2 show ?thesis by blast
qed

lemma logout_example: "logout exampleDb aliceContext = Inr (True, loggedOutDb)"
  by (simp add: logout_def requireAuth_def aliceContext_def project_def try_catch_def
      User_unsetRefreshToken_def exampleDb_def loggedOutDb_def alice_def root_admin_def)

theorem invalidation_blocks_refresh_only_witness:
  "logout exampleDb aliceContext = Inr (True, loggedOutDb) \<and>
   createContext exampleVerify loggedOutDb bearerHeaders
     = createContext exampleVerify exampleDb bearerHeaders \<and>
   refreshTokenMutation exampleVerifyRefresh (\<lambda>p. ''tok2'') exampleDb ''r1''
     = Inr (''tok2'', 900) \<and>
   refreshTokenMutation exampleVerifyRefresh (\<lambda>p. ''tok2'') loggedOutDb ''r1''
     = Inl invalidRefreshToken"
proof -
  have u: "user aliceContext = Some (project False False alice)"
    by (simp add: aliceContext_def)
  have i: "user_id (project False False alice) = ''u1''"
    by (simp add: project_def alice_def)
  have before: "refreshTokenMutation exampleVerifyRefresh (\<lambda>p. ''tok2'') exampleDb ''r1''
     = Inr (''tok2'', 900)"
    by (simp add: refreshTokenMutation_def verifyRefreshToken_def exampleVerifyRefresh_def
        User_findById_select_def project_def exampleDb_def alice_def root_admin_def try_catch_def)
  from invalidation_blocks_refresh_only
         [of aliceContext "project False False alice" exampleDb loggedOutDb _ _ _ _
             exampleVerify bearerHeaders]
       u logout_example i before
  show ?thesis by (simp add: exampleVerifyRefresh_def)
qed

text \<open>
  C2 as stated fails: after alice has logged out, her access token still
  resolves to her authenticated context.
\<close>

theorem revocation_counterexample:
  "logout exampleDb aliceContext = Inr (True, loggedOutDb) \<and>
   createContext exampleVerify loggedOutDb bearerHeaders = Inr aliceContext \<and>
   createContext exampleVerify loggedOutDb bearerHeaders \<noteq> Inr anonymousContext"
  by (simp add: logout_def requireAuth_def aliceContext_def project_def try_catch_def
      User_unsetRefreshToken_def exampleDb_def loggedOutDb_def alice_def root_admin_def
      createContext_def js_or_def bearerHeaders_def extractTokenFromHeader_examples
      exampleVerify_def verifyAccessToken_def User_findById_def User_findById_select_def
      anonymousContext_def)

section \<open>Authorization helpers\<close>

lemma requireAuth_Ctx: "requireAuth (Ctx c) = Inr (prop_user (Ctx c))"
  by (simp add: requireAuth_def)

text \<open>
  C4.  Called with the anonymous context, as the resolvers call it, \<open>requireAuth\<close> does
  not throw: it returns \<open>undefined\<close>, and so does \<open>Query.me\<close>.
\<close>

theorem requireAuth_anonymous_returns_undefined:
  "requireAuth (Ctx anonymousContext) = Inr Undefined \<and> me anonymousContext = Inr Undefined"
  by (simp add: requireAuth_def me_def anonymousContext_def)

lemma requireAdmin_canonical_role:
  "role u \<in> set UserRole_values \<Longrightarrow>
   requireAdmin (Usr u)
     = Inl (AuthenticationError ''Insufficient permissions. Required roles: admin'')"
  by (auto simp: requireAdmin_def requireRole_def requireAuth_def array_includes_def
      UserRole_values_def)

lemma requireAdmin_Ctx:
  "requireAdmin (Ctx c)
     = Inl (AuthenticationError ''Insufficient permissions. Required roles: admin'')"
  by (simp add: requireAdmin_def requireRole_def requireAuth_def array_includes_def)

text \<open>
  C5.  For the user whose stored role is \<open>"ADMIN"\<close>, \<open>requireAdmin\<close> throws, called with
  the user document or (as \<open>deleteUser\<close> calls it) with the context, while the
  resolver-level test of \<open>User.posts\<close> treats the same user as an administrator.
\<close>

theorem requireAdmin_rejects_ADMIN:
  "role root_admin \<in> set UserRole_values \<and>
   requireAdmin (Usr root_admin)
     = Inl (AuthenticationError ''Insufficient permissions. Required roles: admin'') \<and>
   deleteUser_check \<lparr>user = Some root_admin, isAuthenticated = True\<rparr>
     = Inl (AuthenticationError ''Insufficient permissions. Required roles: admin'') \<and>
   \<not> User_posts_publishedOnly \<lparr>user = Some root_admin, isAuthenticated = True\<rparr> ''u1''"
  by (simp add: requireAdmin_def requireRole_def requireAuth_def array_includes_def
      root_admin_def User_posts_publishedOnly_def deleteUser_check_def UserRole_values_def)

lemma requireOwnership_Ctx:
  "requireOwnership (Ctx c) r
     = Inl (TypeError ''Cannot read properties of undefined (reading toString)'')"
  by (simp add: requireOwnership_def requireAuth_def)

lemma deletePost_never_returns: "deletePost d c i \<noteq> Inr (b, d')"
  by (simp add: deletePost_def requireOwnership_Ctx split: sum.splits option.splits)

text \<open>
  C10.  The owner of post \<open>p1\<close> calls \<open>deletePost\<close>: the ownership check throws a
  TypeError, the comment on the post and the post itself stay in the store.
\<close>

theorem deletePost_owner_throws:
  "deletePost exampleDb aliceContext ''p1''
     = Inl (TypeError ''Cannot read properties of undefined (reading toString)'')"
  by (simp add: deletePost_def requireOwnership_Ctx Post_findById_def exampleDb_def)

section \<open>Query cost limits\<close>

lemma willSendResponse_body:
  "body (snd (willSendResponse cfg sz sha now r req resp)) = body resp"
  by (auto simp: willSendResponse_def set_header_def Let_def
      split: prod.splits sum.splits option.splits)

text \<open>The depth rule is built and never applied: the hook does not depend on it.\<close>

lemma didResolveOperation_depthLimit_unused:
  "didResolveOperation cfg gc dl1 req doc = didResolveOperation cfg gc dl2 req doc"
  by (simp add: didResolveOperation_def split: sum.splits)

text \<open>
  C7.  When the estimate exceeds \<open>maximumComplexity\<close>, \<open>didResolveOperation\<close> throws
  the error of \<open>createError\<close>, whose extensions carry the measured complexity and the
  limit; the server then answers with one error and no data, and calls no resolver.
\<close>

theorem complexity_limit_rejects:
  assumes "getComplexity document (nullish_variables (variables req)) = Inr c"
    and "c > maximumComplexity cfg"
    and "createError cfg = default_createError"
  shows "didResolveOperation cfg getComplexity depthLimit req document =
           Inl (GraphQLError
                  (''Query complexity limit of '' @ show_int (maximumComplexity cfg)
                     @ '' exceeded, found '' @ show_int c @ ''.'')
                  [(''code'', ExtStr ''QUERY_COMPLEXITY_LIMIT_EXCEEDED''),
                   (''complexity'', ExtNum c),
                   (''maxComplexity'', ExtNum (maximumComplexity cfg))])
       \<and> resolverCalls (processRequest cfg getComplexity depthLimit ccfg sz sha execute now now' r
             req document opName) = 0
       \<and> body (out_response (processRequest cfg getComplexity depthLimit ccfg sz sha execute
             now now' r req document opName))
           = Single \<lparr>data = None,
                     errors = Some [default_createError (maximumComplexity cfg) c]\<rparr>"
proof -
  have 1: "didResolveOperation cfg getComplexity depthLimit req document =
           Inl (default_createError (maximumComplexity cfg) c)"
    using assms by (simp add: didResolveOperation_def try_catch_def default_createError_def)
  have 2: "resolverCalls (processRequest cfg getComplexity depthLimit ccfg sz sha execute now now' r
             req document opName) = 0"
    by (simp add: processRequest_def 1 case_prod_beta)
  have 3: "body (out_response (processRequest cfg getComplexity depthLimit ccfg sz sha execute
             now now' r req document opName))
           = Single \<lparr>data = None, errors = Some [default_createError (maximumComplexity cfg) c]\<rparr>"
    using willSendResponse_body[of ccfg sz sha now' r req
        "\<lparr>body = Single \<lparr>data = None,
                          errors = Some [default_createError (maximumComplexity cfg) c]\<rparr>,
          http = Some emptyHead\<rparr>"]
    by (simp add: processRequest_def 1 case_prod_beta)
  from 1 2 3 show ?thesis by (simp add: default_createError_def)
qed

lemma wideQuery_complexity: "sum_list (map (sel_complexity 1) wideQuery) = 501"
  by (simp add: wideQuery_def sum_list_replicate)

theorem complexity_limit_rejects_witness:
  "didResolveOperation app_complexityConfig example_getComplexity example_depthLimit
     exampleRequest wideQuery
   = Inl (GraphQLError ''Query complexity limit of 500 exceeded, found 501.''
            [(''code'', ExtStr ''QUERY_COMPLEXITY_LIMIT_EXCEEDED''),
             (''complexity'', ExtNum 501),
             (''maxComplexity'', ExtNum 500)])
   \<and> resolverCalls (processRequest app_complexityConfig example_getComplexity example_depthLimit
        app_cacheConfig exampleSizes id example_execute 0 0 emptyRedis exampleRequest wideQuery
        (Some ''query'')) = 0"
proof -
  have s: "show_int 500 = ''500''" "show_int 501 = ''501''"
    by code_simp+
  from complexity_limit_rejects
         [of example_getComplexity wideQuery exampleRequest 501 app_complexityConfig
             example_depthLimit app_cacheConfig exampleSizes id example_execute 0 0 emptyRedis
             "Some ''query''"]
  show ?thesis
    by (simp add: example_getComplexity_def wideQuery_complexity app_complexityConfig_def
        complexity_defaultConfig_def s)
qed

lemma deepQuery_values:
  "sum_list (map (sel_complexity 1) deepQuery) = 13"
  "fold max (map sel_depth deepQuery) 0 = 12"
  by (simp_all add: deepQuery_def eval_nat_numeral)

text \<open>
  C1.  A query of nesting depth 12, which the depth rule for \<open>maximumDepth = 10\<close>
  reports, passes \<open>didResolveOperation\<close> under the configuration of src/app.ts, and the
  server executes it: its resolvers are called.
\<close>

theorem depth_limit_not_enforced:
  "example_depthLimit (maximumDepth app_complexityConfig) deepQuery \<noteq> []
   \<and> didResolveOperation app_complexityConfig example_getComplexity example_depthLimit
        exampleRequest deepQuery
      = Inr \<lparr>queryComplexity = Some 13, onCompleteArgs = Some (13, 10)\<rparr>
   \<and> resolverCalls (processRequest app_complexityConfig example_getComplexity example_depthLimit
        app_cacheConfig exampleSizes id example_execute 0 0 emptyRedis exampleRequest deepQuery
        (Some ''query'')) = 13"
  by (simp add: example_depthLimit_def deepQuery_values didResolveOperation_def
      example_getComplexity_def app_complexityConfig_def complexity_defaultConfig_def
      try_catch_def exampleRequest_def processRequest_def responseForOperation_def
      app_cacheConfig_def str_truthy_def or_empty_def redis_get_def emptyRedis_def
      example_execute_def split: prod.splits)

section \<open>The response cache\<close>

lemma age_less_iff:
  "((of_int (now - ts) :: rat) / 1000 < of_int t) = (now - ts < 1000 * t)"
proof -
  have "((of_int (now - ts) :: rat) / 1000 < of_int t)
          = ((of_int (now - ts) :: rat) < of_int t * 1000)"
    by (simp add: pos_divide_less_eq)
  also have "\<dots> = ((of_int (now - ts) :: rat) < of_int (1000 * t))"
    by (simp add: mult.commute)
  also have "\<dots> = (now - ts < 1000 * t)"
    by (simp only: of_int_less_iff)
  finally show ?thesis .
qed

lemma age_floor: "\<lfloor>(of_int (now - ts) :: rat) / 1000\<rfloor> = (now - ts) div 1000"
  using floor_divide_of_int_eq[of "now - ts" 1000, where ?'a = rat] by simp

lemma decode_truthy: "decode cached = Inr e \<Longrightarrow> stored_truthy cached"
  by (cases cached) (simp_all add: decode_def)

text \<open>What the lookup answers when Redis returns a text that decodes to an entry.\<close>

lemma lookup_found:
  assumes "str_truthy opName" "''query'' \<in> set (cachableOperations cfg)"
    and "\<not> skipCache cfg opName"
    and "redis_get r now (keyPrefix cfg @ generateCacheKey sha req) = Inr (Some cached)"
    and "decode cached = Inr e"
  shows "responseForOperation cfg sha now r req opName =
     (if now - timestamp e < 1000 * ttl e
      then Some \<lparr>body = Single (ce_data e),
                 http = Some \<lparr>status = Some 200,
                   headers = [''X-Cache'' \<mapsto> HStr ''HIT'',
                              ''X-Cache-Age'' \<mapsto> HNum ((now - timestamp e) div 1000),
                              ''X-Cache-TTL'' \<mapsto>
                                 HSecondsLeft (ttl e) (now - timestamp e)]\<rparr>\<rparr>
      else None)"
  using assms decode_truthy[OF assms(5)]
  by (simp add: responseForOperation_def Let_def age_less_iff age_floor del: of_int_diff)

lemma lookup_absent:
  assumes "redis_get r now (keyPrefix cfg @ generateCacheKey sha req) = Inr None"
  shows "responseForOperation cfg sha now r req opName = None"
  using assms by (simp add: responseForOperation_def)

lemma redis_get_deleted: "up r \<Longrightarrow> redis_get (r\<lparr>kv := (kv r)(k := None)\<rparr>) now k = Inr None"
  by (simp add: redis_get_def)

lemma willSendResponse_snd_kv:
  "snd (willSendResponse cfg sz sha now (r\<lparr>kv := m\<rparr>) req resp)
     = snd (willSendResponse cfg sz sha now r req resp)"
  by (simp add: willSendResponse_def redis_setex_def Let_def case_prod_beta)

lemma processRequest_same_lookup:
  assumes "responseForOperation cfg sha now (r\<lparr>kv := m\<rparr>) req opName
             = responseForOperation cfg sha now r req opName"
  shows "out_response (processRequest ccfg gc dl cfg sz sha ex now now' (r\<lparr>kv := m\<rparr>) req doc opName)
       = out_response (processRequest ccfg gc dl cfg sz sha ex now now' r req doc opName)
    \<and> resolverCalls (processRequest ccfg gc dl cfg sz sha ex now now' (r\<lparr>kv := m\<rparr>) req doc opName)
       = resolverCalls (processRequest ccfg gc dl cfg sz sha ex now now' r req doc opName)"
  by (simp add: processRequest_def assms willSendResponse_snd_kv case_prod_beta
      split: sum.splits option.splits)

text \<open>
  C8.  For a lookup that reaches Redis and gets an entry back, the answer is a hit exactly
  when \<open>(now - timestamp) / 1000 < ttl\<close>, that is \<open>now - timestamp < 1000 * ttl\<close> (the
  timestamp is in milliseconds, the ttl in seconds).  The hit is the entry: its result
  as the body, status 200, and the headers \<open>X-Cache: HIT\<close>, \<open>X-Cache-Age\<close> with the
  whole seconds of the age and \<open>X-Cache-TTL\<close> with \<open>String(ttl - age)\<close>.  When the age
  has reached the ttl the hook returns \<open>null\<close>, which is also what it returns once the
  key is gone from Redis, and the server's response and resolver calls are the same with
  the stale entry in Redis as with the key removed.
\<close>

theorem hit_iff_younger_than_ttl:
  assumes "str_truthy opName" "''query'' \<in> set (cachableOperations cfg)"
    and "\<not> skipCache cfg opName"
    and "redis_get r now (keyPrefix cfg @ generateCacheKey sha req) = Inr (Some cached)"
    and "decode cached = Inr e"
  shows "(responseForOperation cfg sha now r req opName \<noteq> None
            \<longleftrightarrow> now - timestamp e < 1000 * ttl e)
     \<and> (now - timestamp e < 1000 * ttl e \<longrightarrow>
          responseForOperation cfg sha now r req opName
            = Some \<lparr>body = Single (ce_data e),
                    http = Some \<lparr>status = Some 200,
                      headers = [''X-Cache'' \<mapsto> HStr ''HIT'',
                                 ''X-Cache-Age'' \<mapsto> HNum ((now - timestamp e) div 1000),
                                 ''X-Cache-TTL'' \<mapsto>
                                    HSecondsLeft (ttl e) (now - timestamp e)]\<rparr>\<rparr>)
     \<and> (\<not> now - timestamp e < 1000 * ttl e \<longrightarrow>
          responseForOperation cfg sha now r req opName = None
        \<and> responseForOperation cfg sha now r req opName
            = responseForOperation cfg sha now
                (r\<lparr>kv := (kv r)(keyPrefix cfg @ generateCacheKey sha req := None)\<rparr>) req opName
        \<and> out_response (processRequest ccfg gc dl cfg sz sha ex now now' r req doc opName)
            = out_response (processRequest ccfg gc dl cfg sz sha ex now now'
                (r\<lparr>kv := (kv r)(keyPrefix cfg @ generateCacheKey sha req := None)\<rparr>) req doc opName)
        \<and> resolverCalls (processRequest ccfg gc dl cfg sz sha ex now now' r req doc opName)
            = resolverCalls (processRequest ccfg gc dl cfg sz sha ex now now'
                (r\<lparr>kv := (kv r)(keyPrefix cfg @ generateCacheKey sha req := None)\<rparr>) req doc opName))"
proof -
  let ?k = "keyPrefix cfg @ generateCacheKey sha req"
  let ?r' = "r\<lparr>kv := (kv r)(?k := None)\<rparr>"
  note found = lookup_found[OF assms]
  from assms(4) have up: "up r" by (auto simp: redis_get_def split: if_splits)
  have miss: "responseForOperation cfg sha now ?r' req opName = None"
    by (rule lookup_absent) (simp add: redis_get_deleted up)
  have 1: "responseForOperation cfg sha now r req opName \<noteq> None
            \<longleftrightarrow> now - timestamp e < 1000 * ttl e"
    by (simp add: found)
  have 2: "responseForOperation cfg sha now r req opName
            = Some \<lparr>body = Single (ce_data e),
                    http = Some \<lparr>status = Some 200,
                      headers = [''X-Cache'' \<mapsto> HStr ''HIT'',
                                 ''X-Cache-Age'' \<mapsto> HNum ((now - timestamp e) div 1000),
                                 ''X-Cache-TTL'' \<mapsto>
                                    HSecondsLeft (ttl e) (now - timestamp e)]\<rparr>\<rparr>"
    if "now - timestamp e < 1000 * ttl e"
    using that by (simp add: found)
  have 3: "responseForOperation cfg sha now r req opName = None
        \<and> responseForOperation cfg sha now r req opName
            = responseForOperation cfg sha now ?r' req opName
        \<and> out_response (processRequest ccfg gc dl cfg sz sha ex now now' r req doc opName)
            = out_response (processRequest ccfg gc dl cfg sz sha ex now now' ?r' req doc opName)
        \<and> resolverCalls (processRequest ccfg gc dl cfg sz sha ex now now' r req doc opName)
            = resolverCalls (processRequest ccfg gc dl cfg sz sha ex now now' ?r' req doc opName)"
    if stale: "\<not> now - timestamp e < 1000 * ttl e"
  proof -
    from stale found have n: "responseForOperation cfg sha now r req opName = None" by simp
    with miss have eq: "responseForOperation cfg sha now ?r' req opName
        = responseForOperation cfg sha now r req opName" by simp
    from processRequest_same_lookup[OF eq, of ccfg gc dl sz ex now' doc] n eq
    show ?thesis by simp
  qed
  from 1 2 3 show ?thesis by blast
qed

theorem hit_iff_younger_than_ttl_witness:
  "responseForOperation app_cacheConfig id 299999 staleRedis exampleRequest (Some ''query'')
     = Some \<lparr>body = Single exampleResult,
             http = Some \<lparr>status = Some 200,
               headers = [''X-Cache'' \<mapsto> HStr ''HIT'', ''X-Cache-Age'' \<mapsto> HNum 299,
                          ''X-Cache-TTL'' \<mapsto> HSecondsLeft 300 299999]\<rparr>\<rparr>
   \<and> responseForOperation app_cacheConfig id 300000 staleRedis exampleRequest (Some ''query'')
     = None
   \<and> responseForOperation app_cacheConfig id 300000 staleRedis exampleRequest (Some ''query'')
     = responseForOperation app_cacheConfig id 300000 (staleRedis\<lparr>kv := Map.empty\<rparr>)
         exampleRequest (Some ''query'')"
proof -
  have g: "str_truthy (Some ''query'')" "''query'' \<in> set (cachableOperations app_cacheConfig)"
    "\<not> skipCache app_cacheConfig (Some ''query'')"
    by (simp_all add: str_truthy_def app_cacheConfig_def or_empty_def)
  have r: "redis_get staleRedis 299999
             (keyPrefix app_cacheConfig @ generateCacheKey id exampleRequest)
           = Inr (Some (PlainJSON exampleEntry))"
    "redis_get staleRedis 300000
             (keyPrefix app_cacheConfig @ generateCacheKey id exampleRequest)
           = Inr (Some (PlainJSON exampleEntry))"
    by (simp_all add: redis_get_def staleRedis_def)
  have d: "decode (PlainJSON exampleEntry) = Inr exampleEntry"
    by (simp add: decode_def)
  have e: "staleRedis\<lparr>kv := (kv staleRedis)
             (keyPrefix app_cacheConfig @ generateCacheKey id exampleRequest := None)\<rparr>
           = staleRedis\<lparr>kv := Map.empty\<rparr>"
    by (simp add: staleRedis_def)
  note inst = hit_iff_younger_than_ttl
    [where ccfg = app_complexityConfig and gc = example_getComplexity
       and dl = example_depthLimit and sz = exampleSizes and ex = example_execute
       and now' = 0 and doc = deepQuery]
  from inst[OF g r(1) d] inst[OF g r(2) d] e
  show ?thesis by (auto simp add: exampleEntry_def)
qed

subsection \<open>A query sent twice\<close>

text \<open>A value that \<open>JSON.stringify\<close> prints without loss reads back as itself.\<close>

lemma plain_reparse:
  shows "plain v \<Longrightarrow> reparse v = v"
    and "plain_elems xs \<Longrightarrow> reparse_elems xs = xs"
    and "plain_members ms \<Longrightarrow> reparse_members ms = ms"
  by (induction v and xs and ms rule: reparse_reparse_elems_reparse_members.induct)
     (simp_all add: plain_num_def reparse_num_def split: jsnum.splits)

lemma serialize_decode: "decode (fst (serialize cfg sz e)) = Inr (reparse_entry e)"
  by (simp add: serialize_def decode_def)

lemma cacheable_body: "cacheable cfg req resp \<Longrightarrow> body resp = Single (singleResult resp)"
  by (cases "body resp") (simp_all add: cacheable_def singleResult_def)

lemma cacheable_lookup_guard:
  "cacheable cfg req resp \<Longrightarrow>
     str_truthy (operationName req) \<and> \<not> skipCache cfg (operationName req)"
  by (simp add: cacheable_def)

text \<open>
  The read path after a write.  When the first response passes the write condition of
  \<open>willSendResponse\<close>, its stored text is within \<open>maxCacheSize\<close> and Redis accepts it,
  a lookup for the same request less than \<open>ttl\<close> seconds later answers with the result
  that the stored text reads back as, status 200 and the three headers.
\<close>

lemma lookup_after_write:
  assumes cacheable: "cacheable cfg req resp"
    and query: "''query'' \<in> set (cachableOperations cfg)"
    and size: "snd (serialize cfg sz \<lparr>ce_data = singleResult resp, timestamp = t0,
                      ttl = num_or (defaultTTL cfg) 300\<rparr>) \<le> num_or (maxCacheSize cfg) 1000000"
    and up: "up r" and pos: "0 < num_or (defaultTTL cfg) 300"
    and fresh: "t1 - t0 < 1000 * num_or (defaultTTL cfg) 300"
  shows "responseForOperation cfg sha t1 (fst (willSendResponse cfg sz sha t0 r req resp)) req
           (operationName req)
         = Some \<lparr>body = Single ((singleResult resp)
                            \<lparr>data := map_option reparse (data (singleResult resp))\<rparr>),
                 http = Some \<lparr>status = Some 200,
                   headers = [''X-Cache'' \<mapsto> HStr ''HIT'',
                              ''X-Cache-Age'' \<mapsto> HNum ((t1 - t0) div 1000),
                              ''X-Cache-TTL'' \<mapsto>
                                 HSecondsLeft (num_or (defaultTTL cfg) 300) (t1 - t0)]\<rparr>\<rparr>"
proof -
  let ?e = "\<lparr>ce_data = singleResult resp, timestamp = t0, ttl = num_or (defaultTTL cfg) 300\<rparr>"
  let ?k = "keyPrefix cfg @ generateCacheKey sha req"
  let ?r' = "fst (willSendResponse cfg sz sha t0 r req resp)"
  have w: "?r' = r\<lparr>kv := (kv r)(?k \<mapsto> (fst (serialize cfg sz ?e),
                                          t0 + 1000 * num_or (defaultTTL cfg) 300))\<rparr>"
    using cacheable size up pos
    by (simp add: willSendResponse_def Let_def case_prod_beta redis_setex_def)
  from fresh have "t1 < t0 + 1000 * num_or (defaultTTL cfg) 300" by simp
  then have g: "redis_get ?r' t1 ?k = Inr (Some (fst (serialize cfg sz ?e)))"
    using up by (simp add: w redis_get_def)
  from cacheable_lookup_guard[OF cacheable]
  have "responseForOperation cfg sha t1 ?r' req (operationName req) =
     (if t1 - timestamp (reparse_entry ?e) < 1000 * ttl (reparse_entry ?e)
      then Some \<lparr>body = Single (ce_data (reparse_entry ?e)),
                 http = Some \<lparr>status = Some 200,
                   headers = [''X-Cache'' \<mapsto> HStr ''HIT'',
                              ''X-Cache-Age'' \<mapsto>
                                 HNum ((t1 - timestamp (reparse_entry ?e)) div 1000),
                              ''X-Cache-TTL'' \<mapsto>
                                 HSecondsLeft (ttl (reparse_entry ?e))
                                   (t1 - timestamp (reparse_entry ?e))]\<rparr>\<rparr>
      else None)"
    by (intro lookup_found[OF _ query _ g serialize_decode]) simp_all
  with fresh show ?thesis by (simp add: reparse_entry_def)
qed

text \<open>
  A query sent without an operation name, and a query whose first result carries an
  error, are not stored: the second lookup within the ttl answers \<open>null\<close>.
\<close>

lemma unnamed_or_failed_not_stored:
  "responseForOperation app_cacheConfig id 1000
     (fst (willSendResponse app_cacheConfig exampleSizes id 0 emptyRedis unnamedRequest
             exampleResponse))
     unnamedRequest None = None
   \<and> responseForOperation app_cacheConfig id 1000
     (fst (willSendResponse app_cacheConfig exampleSizes id 0 emptyRedis exampleRequest
            (exampleResponse\<lparr>body := Single (exampleResult\<lparr>errors := Some [StoreError]\<rparr>)\<rparr>)))
     exampleRequest (Some ''query'') = None"
  by (simp add: responseForOperation_def willSendResponse_def cacheable_def str_truthy_def
      unnamedRequest_def exampleRequest_def exampleResponse_def exampleResult_def redis_get_def
      emptyRedis_def app_cacheConfig_def or_empty_def)

text \<open>
  In the order of the hooks, \<open>willSendResponse\<close> also runs on the response a lookup
  answered.  For an operation named \<open>query\<close>, the one name the write condition
  accepts, the second request is served from the cache (no resolver is called), is
  written to Redis again, and leaves with \<open>X-Cache\<close> set to \<open>MISS\<close>.
\<close>

lemma hit_marker_overwritten:
  "resolverCalls
     (processRequest app_complexityConfig example_getComplexity example_depthLimit
        app_cacheConfig exampleSizes id example_execute 1500 1500
        (fst (willSendResponse app_cacheConfig exampleSizes id 0 emptyRedis exampleRequest
                exampleResponse))
        exampleRequest [Field ''posts'' [Field ''id'' []]] (Some ''query'')) = 0
   \<and> map_option (\<lambda>h. headers h ''X-Cache'')
       (http (out_response
         (processRequest app_complexityConfig example_getComplexity example_depthLimit
            app_cacheConfig exampleSizes id example_execute 1500 1500
            (fst (willSendResponse app_cacheConfig exampleSizes id 0 emptyRedis exampleRequest
                    exampleResponse))
            exampleRequest [Field ''posts'' [Field ''id'' []]] (Some ''query''))))
     = Some (Some (HStr ''MISS''))"
proof -
  define r1 where "r1 = fst (willSendResponse app_cacheConfig exampleSizes id 0 emptyRedis
                                exampleRequest exampleResponse)"
  define k where "k = keyPrefix app_cacheConfig @ generateCacheKey id exampleRequest"
  have d: "didResolveOperation app_complexityConfig example_getComplexity example_depthLimit
        exampleRequest [Field ''posts'' [Field ''id'' []]]
      = Inr \<lparr>queryComplexity = Some 2, onCompleteArgs = Some (2, 10)\<rparr>"
    by (simp add: didResolveOperation_def example_getComplexity_def app_complexityConfig_def
        complexity_defaultConfig_def try_catch_def exampleRequest_def)
  have c: "cacheable app_cacheConfig exampleRequest resp"
    if "body resp = Single exampleResult" for resp
    using that by (simp add: cacheable_def str_truthy_def exampleRequest_def
        exampleResult_def app_cacheConfig_def array_includes_def or_empty_def)
  have ser: "serialize app_cacheConfig exampleSizes e = (PlainJSON (reparse_entry e), 120)" for e
    by (simp add: serialize_def exampleSizes_def app_cacheConfig_def)
  have cfg: "maxCacheSize app_cacheConfig = 1048576" "defaultTTL app_cacheConfig = 300"
    by (simp_all add: app_cacheConfig_def)
  have rp: "reparse_entry \<lparr>ce_data = exampleResult, timestamp = t, ttl = 300\<rparr>
              = \<lparr>ce_data = exampleResult, timestamp = t, ttl = 300\<rparr>" for t
    by (simp add: reparse_entry_def exampleResult_def)
  have r1: "r1 = \<lparr>kv = [k \<mapsto> (PlainJSON exampleEntry, 300000)], up = True\<rparr>"
    by (simp add: r1_def k_def willSendResponse_def c ser cfg num_or_def redis_setex_def
        emptyRedis_def exampleResponse_def singleResult_def exampleEntry_def rp)
  have fl: "\<lfloor>(3::rat) / 2\<rfloor> = 1" by (simp add: floor_eq_iff)
  have g: "str_truthy (Some ''query'')" "''query'' \<in> set (cachableOperations app_cacheConfig)"
    "\<not> skipCache app_cacheConfig (Some ''query'')"
    by (simp_all add: str_truthy_def app_cacheConfig_def or_empty_def)
  define hitResp where "hitResp =
     \<lparr>body = Single exampleResult,
      http = Some \<lparr>status = Some 200,
               headers = [''X-Cache'' \<mapsto> HStr ''HIT'', ''X-Cache-Age'' \<mapsto> HNum 1,
                          ''X-Cache-TTL'' \<mapsto> HSecondsLeft 300 1500]\<rparr>\<rparr>"
  have hit: "responseForOperation app_cacheConfig id 1500 r1 exampleRequest (Some ''query'')
     = Some hitResp"
    using g fl
    by (simp add: responseForOperation_def r1 redis_get_def decode_def exampleEntry_def
        hitResp_def flip: k_def)
  have w: "snd (willSendResponse app_cacheConfig exampleSizes id 1500 r1 exampleRequest hitResp)
     = \<lparr>body = Single exampleResult,
        http = Some \<lparr>status = Some 200,
               headers = [''X-Cache'' \<mapsto> HStr ''MISS'', ''X-Cache-Age'' \<mapsto> HNum 1,
                          ''X-Cache-TTL'' \<mapsto> HNum 300]\<rparr>\<rparr>"
    by (simp add: willSendResponse_def c ser cfg num_or_def r1 redis_setex_def set_header_def
        hitResp_def fun_upd_twist)
  show ?thesis
    unfolding r1_def[symmetric]
    by (simp add: processRequest_def d hit w case_prod_beta)
qed

text \<open>
  C3 fails in the code.  \<open>willSendResponse\<close> tests
  \<open>cachableOperations.includes(request.operationName)\<close>, the NAME of the operation
  against the list \<open>["query"]\<close>, where \<open>responseForOperation\<close> tests
  \<open>includes("query")\<close>.  The query \<open>query GetPosts { posts { id } }\<close>, a read operation
  whose name is not in the skip list, is sent twice, 1.5 seconds apart, under the
  configuration of src/app.ts: the first response is not written to Redis, the lookup of
  the second request answers \<open>null\<close>, the resolvers run again, and the second response
  carries no \<open>X-Cache\<close> header.
\<close>

theorem named_query_never_cached:
  "\<not> skipCache app_cacheConfig (operationName getPostsRequest)
   \<and> out_redis
       (processRequest app_complexityConfig example_getComplexity example_depthLimit
          app_cacheConfig exampleSizes id example_execute 0 0 emptyRedis
          getPostsRequest [Field ''posts'' [Field ''id'' []]] (Some ''GetPosts''))
     = emptyRedis
   \<and> responseForOperation app_cacheConfig id 1500
       (out_redis
          (processRequest app_complexityConfig example_getComplexity example_depthLimit
             app_cacheConfig exampleSizes id example_execute 0 0 emptyRedis
             getPostsRequest [Field ''posts'' [Field ''id'' []]] (Some ''GetPosts'')))
       getPostsRequest (Some ''GetPosts'')
     = None
   \<and> resolverCalls
       (processRequest app_complexityConfig example_getComplexity example_depthLimit
          app_cacheConfig exampleSizes id example_execute 1500 1500
          (out_redis
             (processRequest app_complexityConfig example_getComplexity example_depthLimit
                app_cacheConfig exampleSizes id example_execute 0 0 emptyRedis
                getPostsRequest [Field ''posts'' [Field ''id'' []]] (Some ''GetPosts'')))
          getPostsRequest [Field ''posts'' [Field ''id'' []]] (Some ''GetPosts''))
     = 13
   \<and> map_option (\<lambda>h. headers h ''X-Cache'')
       (http (out_response
         (processRequest app_complexityConfig example_getComplexity example_depthLimit
            app_cacheConfig exampleSizes id example_execute 1500 1500
            (out_redis
               (processRequest app_complexityConfig example_getComplexity example_depthLimit
                  app_cacheConfig exampleSizes id example_execute 0 0 emptyRedis
                  getPostsRequest [Field ''posts'' [Field ''id'' []]] (Some ''GetPosts'')))
            getPostsRequest [Field ''posts'' [Field ''id'' []]] (Some ''GetPosts''))))
     = Some None"
proof -
  have d: "didResolveOperation app_complexityConfig example_getComplexity example_depthLimit
        getPostsRequest [Field ''posts'' [Field ''id'' []]]
      = Inr \<lparr>queryComplexity = Some 2, onCompleteArgs = Some (2, 10)\<rparr>"
    by (simp add: didResolveOperation_def example_getComplexity_def app_complexityConfig_def
        complexity_defaultConfig_def try_catch_def getPostsRequest_def)
  have nc: "\<not> cacheable app_cacheConfig getPostsRequest resp" for resp
    by (simp add: cacheable_def getPostsRequest_def app_cacheConfig_def array_includes_def)
  have w: "willSendResponse app_cacheConfig exampleSizes id t r getPostsRequest resp = (r, resp)"
    for t r resp
    by (simp add: willSendResponse_def nc)
  have l: "responseForOperation app_cacheConfig id t emptyRedis getPostsRequest
             (Some ''GetPosts'') = None" for t
    by (simp add: responseForOperation_def redis_get_def emptyRedis_def)
  have p: "processRequest app_complexityConfig example_getComplexity example_depthLimit
             app_cacheConfig exampleSizes id example_execute t t emptyRedis
             getPostsRequest [Field ''posts'' [Field ''id'' []]] (Some ''GetPosts'')
           = \<lparr>out_response = \<lparr>body = Single exampleResult, http = Some emptyHead\<rparr>,
              resolverCalls = 13, out_redis = emptyRedis\<rparr>" for t
    by (simp add: processRequest_def d l w example_execute_def)
  have s: "\<not> skipCache app_cacheConfig (operationName getPostsRequest)"
    by (simp add: app_cacheConfig_def getPostsRequest_def or_empty_def)
  show ?thesis by (simp add: p l s emptyHead_def)
qed
section \<open>The operation fingerprint\<close>

subsection \<open>Decimal digits\<close>











subsection \<open>Lists\<close>



subsection \<open>The text of a number\<close>






















subsection \<open>Strings and values\<close>















subsection \<open>The cache key\<close>




lemma same_text_same_key:
  "stringify (keyData r1) = stringify (keyData r2)
   \<Longrightarrow> generateCacheKey sha r1 = generateCacheKey sha r2"
  by (simp add: generateCacheKey_def)




end
